theory Spec2Isabelle
  imports
    Main
    "HOL-Library.Word"
    "HOL-Library.Signed_Division"
    "HOL-Library.Char_ord"
    "HOL-Library.List_Lexorder"
    "HOL-Library.Multiset"
begin

unbundle bit_operations_syntax

section \<open>Signature validation of inbound webhook requests (package signature)\<close>

text \<open>
  The development embeds \<^verbatim>\<open>signature/signature.go\<close>. Functions of the package keep
  their names. Functions of Go's standard library that the package calls are embedded from
  the library's documented behaviour and carry the library's names with the package as a
  prefix (\<open>strconv_ParseInt\<close>, \<open>time_Unix\<close>, ...).

  A Go \<^verbatim>\<open>string\<close> is a sequence of bytes and is a \<^typ>\<open>string\<close> here; a \<^verbatim>\<open>[]byte\<close>
  is a list of 8-bit words.
\<close>

type_synonym byte = "8 word"
type_synonym bytes = "byte list"

definition bytes_of_string :: "string \<Rightarrow> bytes" where
  \<comment> \<open>the conversion \<^verbatim>\<open>[]byte(s)\<close>\<close>
  "bytes_of_string s = map of_char s"

subsection \<open>strconv.ParseInt(s, 10, 64)\<close>

datatype NumError = ErrSyntax | ErrRange

definition maxUint64 :: nat where
  "maxUint64 = 2 ^ 64 - 1"

text \<open>
  The loop of \<^verbatim>\<open>ParseUint\<close> for base 10 and 64 bits: a byte that is not a decimal digit
  is a syntax error; the value is checked before the multiplication by the base and after the
  addition of the digit, and the first overflow ends the loop with a range error.
\<close>

fun ParseUint_loop :: "nat \<Rightarrow> string \<Rightarrow> NumError + nat" where
  "ParseUint_loop n [] = Inr n"
| "ParseUint_loop n (c # cs) =
     (if \<not> (48 \<le> (of_char c :: nat) \<and> (of_char c :: nat) \<le> 57) then Inl ErrSyntax
      else if n \<ge> maxUint64 div 10 + 1 then Inl ErrRange
      else if n * 10 + (of_char c - 48) > maxUint64 then Inl ErrRange
      else ParseUint_loop (n * 10 + (of_char c - 48)) cs)"

definition strconv_ParseUint :: "string \<Rightarrow> NumError + nat" where
  "strconv_ParseUint s = (if s = [] then Inl ErrSyntax else ParseUint_loop 0 s)"

definition strconv_ParseInt :: "string \<Rightarrow> NumError + 64 word" where
  "strconv_ParseInt s0 =
     (if s0 = [] then Inl ErrSyntax
      else
        let neg = (hd s0 = CHR ''-'');
            s = (if hd s0 = CHR ''+'' \<or> hd s0 = CHR ''-'' then tl s0 else s0)
        in case strconv_ParseUint s of
             Inl ErrSyntax \<Rightarrow> Inl ErrSyntax
           | Inl ErrRange \<Rightarrow> Inl ErrRange
           | Inr un \<Rightarrow>
               if \<not> neg \<and> un \<ge> 2 ^ 63 then Inl ErrRange
               else if neg \<and> un > 2 ^ 63 then Inl ErrRange
               else Inr (if neg then - (word_of_nat un) else word_of_nat un))"

subsection \<open>Package time\<close>

text \<open>
  A \<^verbatim>\<open>time.Duration\<close> is an \<^verbatim>\<open>int64\<close> count of nanoseconds. A \<^verbatim>\<open>time.Time\<close> is an
  instant with nanosecond precision; it is the number of nanoseconds since the Unix epoch
  here. \<^verbatim>\<open>Add\<close> and \<^verbatim>\<open>Sub\<close> follow the package documentation: \<^verbatim>\<open>t.Add(d)\<close> is
  the instant \<open>t + d\<close>, and \<^verbatim>\<open>t.Sub(u)\<close> is the duration \<open>t - u\<close>, replaced by the
  largest or smallest duration when it does not fit.
\<close>

type_synonym Duration = "64 word"
type_synonym Time = int

definition Second :: Duration where
  "Second = 1000000000"

definition maxDuration :: Duration where
  "maxDuration = 9223372036854775807"

definition minDuration :: Duration where
  "minDuration = - 9223372036854775808"

definition Duration_div :: "Duration \<Rightarrow> Duration \<Rightarrow> Duration" where
  \<comment> \<open>Go's \<^verbatim>\<open>/\<close> on \<^verbatim>\<open>int64\<close>: the quotient truncated towards zero, wrapped to 64 bits\<close>
  "Duration_div a b = word_of_int (sint a sdiv sint b)"

definition time_Unix :: "64 word \<Rightarrow> Time" where
  \<comment> \<open>\<^verbatim>\<open>time.Unix(sec, 0)\<close>\<close>
  "time_Unix sec = sint sec * 1000000000"

definition Time_Add :: "Time \<Rightarrow> Duration \<Rightarrow> Time" where
  "Time_Add t d = t + sint d"

definition Time_Sub :: "Time \<Rightarrow> Time \<Rightarrow> Duration" where
  "Time_Sub t u =
     (if t - u > sint maxDuration then maxDuration
      else if t - u < sint minDuration then minDuration
      else word_of_int (t - u))"

subsection \<open>The package variable and the validator\<close>

text \<open>
  \<^verbatim>\<open>Period\<close> is a \<^verbatim>\<open>*time.Duration\<close>. A pointer is the address of the package variable
  \<^verbatim>\<open>ValidityWindow\<close> or of another duration variable of the program; \<^verbatim>\<open>nil\<close> is
  \<open>None\<close>. The memory is a function from addresses to durations.
\<close>

datatype addr = ValidityWindow_addr | Var_addr nat

type_synonym memory = "addr \<Rightarrow> Duration"

definition init_memory :: memory where
  \<comment> \<open>\<^verbatim>\<open>var ValidityWindow = 5 * time.Second\<close>\<close>
  "init_memory = (\<lambda>a. case a of ValidityWindow_addr \<Rightarrow> 5 * Second | Var_addr _ \<Rightarrow> 0)"

record Validator =
  SigningKey :: string
  Period :: "addr option"

definition NewValidator :: "string \<Rightarrow> Validator" where
  "NewValidator signingKey = \<lparr>SigningKey = signingKey, Period = Some ValidityWindow_addr\<rparr>"

subsection \<open>stringToTime and validTimestamp\<close>

definition stringToTime :: "string \<Rightarrow> NumError + Time" where
  "stringToTime s =
     (case strconv_ParseInt s of
        Inl err \<Rightarrow> Inl err
      | Inr sec \<Rightarrow> Inr (time_Unix sec))"

text \<open>
  \<^verbatim>\<open>validTimestamp\<close> reads the clock (\<open>now\<close> is the value of \<^verbatim>\<open>time.Now()\<close>) and
  the memory (for \<^verbatim>\<open>*v.Period\<close>). The division \<^verbatim>\<open>*v.Period / 2\<close> is Go's division of
  \<^verbatim>\<open>int64\<close>, which truncates towards zero, and the comparisons are signed.
\<close>

definition validTimestamp :: "memory \<Rightarrow> Time \<Rightarrow> Validator \<Rightarrow> string \<Rightarrow> bool" where
  "validTimestamp mem now v ts =
     (case stringToTime ts of
        Inl err \<Rightarrow> False
      | Inr t \<Rightarrow>
          (case Period v of
             None \<Rightarrow> True
           | Some p \<Rightarrow>
               let diff = Time_Sub (Time_Add now (Duration_div (mem p) 2)) t
               in diff <s mem p \<and> 0 <s diff))"

subsection \<open>crypto/sha256\<close>

text \<open>
  \<^verbatim>\<open>sha256.Sum256\<close>, after the generic block function of the package. The eight working
  variables and the hash value are lists of eight 32-bit words; the message schedule is kept
  with the most recent word first, so \<^verbatim>\<open>w[i-2]\<close>, \<^verbatim>\<open>w[i-7]\<close>, \<^verbatim>\<open>w[i-15]\<close> and
  \<^verbatim>\<open>w[i-16]\<close> are the elements 1, 6, 14 and 15.
\<close>

type_synonym uint32 = "32 word"

definition RotateRight32 :: "uint32 \<Rightarrow> nat \<Rightarrow> uint32" where
  \<comment> \<open>\<^verbatim>\<open>bits.RotateLeft32(x, -n)\<close>\<close>
  "RotateRight32 x n = drop_bit n x OR push_bit (32 - n) x"

definition sha256_K :: "uint32 list" where
  "sha256_K = [
    0x428A2F98, 0x71374491, 0xB5C0FBCF, 0xE9B5DBA5, 0x3956C25B, 0x59F111F1, 0x923F82A4, 0xAB1C5ED5,
    0xD807AA98, 0x12835B01, 0x243185BE, 0x550C7DC3, 0x72BE5D74, 0x80DEB1FE, 0x9BDC06A7, 0xC19BF174,
    0xE49B69C1, 0xEFBE4786, 0x0FC19DC6, 0x240CA1CC, 0x2DE92C6F, 0x4A7484AA, 0x5CB0A9DC, 0x76F988DA,
    0x983E5152, 0xA831C66D, 0xB00327C8, 0xBF597FC7, 0xC6E00BF3, 0xD5A79147, 0x06CA6351, 0x14292967,
    0x27B70A85, 0x2E1B2138, 0x4D2C6DFC, 0x53380D13, 0x650A7354, 0x766A0ABB, 0x81C2C92E, 0x92722C85,
    0xA2BFE8A1, 0xA81A664B, 0xC24B8B70, 0xC76C51A3, 0xD192E819, 0xD6990624, 0xF40E3585, 0x106AA070,
    0x19A4C116, 0x1E376C08, 0x2748774C, 0x34B0BCB5, 0x391C0CB3, 0x4ED8AA4A, 0x5B9CCA4F, 0x682E6FF3,
    0x748F82EE, 0x78A5636F, 0x84C87814, 0x8CC70208, 0x90BEFFFA, 0xA4506CEB, 0xBEF9A3F7, 0xC67178F2]"

definition sha256_init :: "uint32 list" where
  "sha256_init = [0x6A09E667, 0xBB67AE85, 0x3C6EF372, 0xA54FF53A,
                  0x510E527F, 0x9B05688C, 0x1F83D9AB, 0x5BE0CD19]"

fun be_uint32s :: "bytes \<Rightarrow> uint32 list" where
  "be_uint32s (a # b # c # d # p) =
     (push_bit 24 (ucast a) OR push_bit 16 (ucast b) OR push_bit 8 (ucast c) OR ucast d)
       # be_uint32s p"
| "be_uint32s p = []"

definition schedule_word :: "uint32 list \<Rightarrow> uint32" where
  "schedule_word rw =
     (let v1 = rw ! 1;
          t1 = RotateRight32 v1 17 XOR RotateRight32 v1 19 XOR drop_bit 10 v1;
          v2 = rw ! 14;
          t2 = RotateRight32 v2 7 XOR RotateRight32 v2 18 XOR drop_bit 3 v2
      in t1 + rw ! 6 + t2 + rw ! 15)"

fun schedule :: "nat \<Rightarrow> uint32 list \<Rightarrow> uint32 list" where
  "schedule 0 rw = rw"
| "schedule (Suc n) rw = schedule n (schedule_word rw # rw)"

fun round256 :: "uint32 \<times> uint32 \<Rightarrow> uint32 list \<Rightarrow> uint32 list" where
  "round256 (k, w) [a, b, c, d, e, f, g, h] =
     (let t1 = h + (RotateRight32 e 6 XOR RotateRight32 e 11 XOR RotateRight32 e 25)
                 + ((e AND f) XOR (NOT e AND g)) + k + w;
          t2 = (RotateRight32 a 2 XOR RotateRight32 a 13 XOR RotateRight32 a 22)
                 + ((a AND b) XOR (a AND c) XOR (b AND c))
      in [t1 + t2, a, b, c, d + t1, e, f, g])"
| "round256 kw s = s"

definition sha256_block :: "uint32 list \<Rightarrow> bytes \<Rightarrow> uint32 list" where
  \<comment> \<open>one 64-byte chunk\<close>
  "sha256_block hs p =
     map2 (+) hs (fold round256 (zip sha256_K (rev (schedule 48 (rev (be_uint32s p))))) hs)"

fun sha256_blocks :: "uint32 list \<Rightarrow> bytes \<Rightarrow> uint32 list" where
  "sha256_blocks hs p =
     (if length p < 64 then hs else sha256_blocks (sha256_block hs (take 64 p)) (drop 64 p))"

declare sha256_blocks.simps [simp del]

definition be_bytes32 :: "uint32 \<Rightarrow> bytes" where
  "be_bytes32 x = [ucast (drop_bit 24 x), ucast (drop_bit 16 x), ucast (drop_bit 8 x), ucast x]"

definition be_bytes64 :: "64 word \<Rightarrow> bytes" where
  "be_bytes64 x =
     [ucast (drop_bit 56 x), ucast (drop_bit 48 x), ucast (drop_bit 40 x), ucast (drop_bit 32 x),
      ucast (drop_bit 24 x), ucast (drop_bit 16 x), ucast (drop_bit 8 x), ucast x]"

definition sha256_padding :: "nat \<Rightarrow> bytes" where
  \<comment> \<open>\<^verbatim>\<open>checkSum\<close>: a 1 bit, 0 bits until 56 bytes mod 64, the length in bits\<close>
  "sha256_padding len =
     (let t = (if len mod 64 < 56 then 56 - len mod 64 else 64 + 56 - len mod 64)
      in 0x80 # replicate (t - 1) 0 @ be_bytes64 (push_bit 3 (word_of_nat len)))"

definition sha256_Sum256 :: "bytes \<Rightarrow> bytes" where
  "sha256_Sum256 data =
     concat (map be_bytes32 (sha256_blocks sha256_init (data @ sha256_padding (length data))))"

text \<open>
  A running \<^verbatim>\<open>hash.Hash\<close> of SHA-256 is the bytes written to it so far. \<^verbatim>\<open>Write\<close> never
  returns an error; its result keeps the error all the same, as the signature of the method
  does.
\<close>

datatype error = Error string

type_synonym sha256_digest = bytes

definition sha256_New :: sha256_digest where
  "sha256_New = []"

definition sha256_Write :: "sha256_digest \<Rightarrow> bytes \<Rightarrow> sha256_digest \<times> nat \<times> error option" where
  "sha256_Write d p = (d @ p, length p, None)"

definition sha256_Sum :: "sha256_digest \<Rightarrow> bytes \<Rightarrow> bytes" where
  "sha256_Sum d b = b @ sha256_Sum256 d"

subsection \<open>crypto/hmac and crypto/subtle\<close>

record hmac =
  opad :: bytes
  ipad :: bytes
  outer :: sha256_digest
  inner :: sha256_digest

definition hmac_New :: "bytes \<Rightarrow> hmac" where
  \<comment> \<open>\<^verbatim>\<open>hmac.New(sha256.New, key)\<close>; the block size of SHA-256 is 64\<close>
  "hmac_New key0 =
     (let key = (if length key0 > 64 then sha256_Sum (fst (sha256_Write sha256_New key0)) []
                 else key0);
          padded = key @ replicate (64 - length key) 0;
          ip = map (\<lambda>x. x XOR 0x36) padded;
          op = map (\<lambda>x. x XOR 0x5c) padded
      in \<lparr>opad = op, ipad = ip, outer = sha256_New,
          inner = fst (sha256_Write sha256_New ip)\<rparr>)"

definition hmac_Write :: "hmac \<Rightarrow> bytes \<Rightarrow> hmac \<times> nat \<times> error option" where
  "hmac_Write h p =
     (case sha256_Write (inner h) p of (d, n, err) \<Rightarrow> (h\<lparr>inner := d\<rparr>, n, err))"

definition hmac_Sum :: "hmac \<Rightarrow> bytes \<Rightarrow> bytes" where
  "hmac_Sum h b =
     (let s = sha256_Sum (inner h) b;
          o1 = fst (sha256_Write sha256_New (opad h));
          o2 = fst (sha256_Write o1 (drop (length b) s))
      in sha256_Sum o2 (take (length b) s))"

definition ConstantTimeByteEq :: "byte \<Rightarrow> byte \<Rightarrow> int" where
  \<comment> \<open>\<^verbatim>\<open>int((uint32(x^y) - 1) >> 31)\<close>\<close>
  "ConstantTimeByteEq x y = uint (drop_bit 31 ((ucast (x XOR y) :: uint32) - 1))"

definition ConstantTimeCompare :: "bytes \<Rightarrow> bytes \<Rightarrow> int" where
  "ConstantTimeCompare x y =
     (if length x \<noteq> length y then 0
      else ConstantTimeByteEq (fold (\<lambda>(a, b) v. v OR (a XOR b)) (zip x y) 0) 0)"

definition hmac_Equal :: "bytes \<Rightarrow> bytes \<Rightarrow> bool" where
  "hmac_Equal mac1 mac2 = (ConstantTimeCompare mac1 mac2 = 1)"

subsection \<open>encoding/base64, the standard encoding\<close>

definition encodeStd :: string where
  "encodeStd = ''ABCDEFGHIJKLMNOPQRSTUVWXYZabcdefghijklmnopqrstuvwxyz0123456789+/''"

definition enc :: "uint32 \<Rightarrow> char" where
  \<comment> \<open>\<^verbatim>\<open>enc.encode[x & 0x3F]\<close>\<close>
  "enc x = encodeStd ! unat (x AND 0x3F)"

definition decodeMap :: "char \<Rightarrow> byte" where
  \<comment> \<open>the table of 256 entries: 0xFF, but the index in the alphabet for its characters\<close>
  "decodeMap = fold (\<lambda>i m. m (encodeStd ! i := word_of_nat i)) [0..<64] (\<lambda>c. 0xFF)"

fun EncodeToString :: "bytes \<Rightarrow> string" where
  "EncodeToString (a # b # c # src) =
     (let val = push_bit 16 (ucast a) OR push_bit 8 (ucast b) OR ucast c
      in enc (drop_bit 18 val) # enc (drop_bit 12 val) # enc (drop_bit 6 val) # enc val
           # EncodeToString src)"
| "EncodeToString [a, b] =
     (let val = push_bit 16 (ucast a) OR push_bit 8 (ucast b)
      in [enc (drop_bit 18 val), enc (drop_bit 12 val), enc (drop_bit 6 val), CHR ''=''])"
| "EncodeToString [a] =
     (let val = push_bit 16 (ucast a)
      in [enc (drop_bit 18 val), enc (drop_bit 12 val), CHR ''='', CHR ''=''])"
| "EncodeToString [] = []"

datatype CorruptInputError = CorruptInputError

definition quantum_val :: "byte list \<Rightarrow> uint32" where
  \<comment> \<open>\<^verbatim>\<open>val\<close>: the four sextets of \<open>dbuf\<close>, 24 bits\<close>
  "quantum_val d =
     push_bit 18 (ucast (d ! 0)) OR push_bit 12 (ucast (d ! 1))
       OR push_bit 6 (ucast (d ! 2)) OR ucast (d ! 3)"

definition quantum_bytes :: "byte list \<Rightarrow> bytes" where
  \<comment> \<open>the bytes of a quantum of \<open>dlen\<close> characters, \<open>dlen - 1\<close> of them\<close>
  "quantum_bytes dbuf =
     (let val = quantum_val (dbuf @ replicate (4 - length dbuf) 0)
      in take (length dbuf - 1) [ucast (drop_bit 16 val), ucast (drop_bit 8 val), ucast val])"

definition is_newline :: "char \<Rightarrow> bool" where
  "is_newline c = (c = CHR 0x0A \<or> c = CHR 0x0D)"

definition decode_padding :: "byte list \<Rightarrow> bytes \<Rightarrow> string \<Rightarrow> CorruptInputError + bytes" where
  \<comment> \<open>after a padding character read with \<open>j = length dbuf\<close> characters in the quantum\<close>
  "decode_padding dbuf acc src =
     (if length dbuf < 2 then Inl CorruptInputError
      else
        let s1 = dropWhile is_newline src in
        if length dbuf = 2 \<and> s1 = [] then Inl CorruptInputError
        else if length dbuf = 2 \<and> hd s1 \<noteq> CHR ''='' then Inl CorruptInputError
        else
          let s2 = dropWhile is_newline (if length dbuf = 2 then tl s1 else src) in
          if s2 \<noteq> [] then Inl CorruptInputError
          else Inr (acc @ quantum_bytes dbuf))"

text \<open>
  \<^verbatim>\<open>DecodeString\<close>: the loops of \<^verbatim>\<open>Decode\<close> and \<^verbatim>\<open>decodeQuantum\<close> in one recursion
  over the input. \<open>dbuf\<close> holds the sextets of the current quantum, \<open>acc\<close> the bytes of the
  quanta before it. Line feeds and carriage returns are skipped, padding is required, and
  the bits that a padded quantum leaves over are not checked (the encoding is not strict).
  On an error Go returns the bytes decoded so far with the error; the bytes are dropped here.
\<close>

fun decode :: "byte list \<Rightarrow> bytes \<Rightarrow> string \<Rightarrow> CorruptInputError + bytes" where
  "decode dbuf acc [] = (if dbuf = [] then Inr acc else Inl CorruptInputError)"
| "decode dbuf acc (c # src) =
     (if decodeMap c \<noteq> 0xFF then
        (if length dbuf = 3 then decode [] (acc @ quantum_bytes (dbuf @ [decodeMap c])) src
         else decode (dbuf @ [decodeMap c]) acc src)
      else if is_newline c then decode dbuf acc src
      else if c \<noteq> CHR ''='' then Inl CorruptInputError
      else decode_padding dbuf acc src)"

definition DecodeString :: "string \<Rightarrow> CorruptInputError + bytes" where
  "DecodeString s = decode [] [] s"

subsection \<open>hMACSHA256 and calculateSignature\<close>

definition hMACSHA256 :: "bytes \<Rightarrow> bytes \<Rightarrow> bytes \<times> error option" where
  "hMACSHA256 message key =
     (let mac = hmac_New key in
      case hmac_Write mac message of
        (mac', n, Some err) \<Rightarrow> ([], Some err)
      | (mac', n, None) \<Rightarrow> (hmac_Sum mac' [], None))"

text \<open>
  The keyed hash that the specification names \<open>HMAC_SHA256(key, message)\<close>, in the words of
  RFC 2104: \<open>H((K0 xor opad) || H((K0 xor ipad) || message))\<close>, where \<open>K0\<close> is the key, hashed
  when it is longer than a block, filled with zeros to the 64 bytes of a block.
\<close>

definition HMAC_SHA256 :: "bytes \<Rightarrow> bytes \<Rightarrow> bytes" where
  "HMAC_SHA256 key message =
     (let k = (if length key > 64 then sha256_Sum256 key else key);
          k0 = k @ replicate (64 - length k) 0
      in sha256_Sum256 (map (\<lambda>x. x XOR 0x5c) k0
           @ sha256_Sum256 (map (\<lambda>x. x XOR 0x36) k0 @ message)))"

definition Fprintf_s_s_s :: "bytes \<Rightarrow> bytes \<Rightarrow> bytes \<Rightarrow> bytes \<Rightarrow> bytes" where
  \<comment> \<open>\<^verbatim>\<open>fmt.Fprintf(&m, "%s\n%s\n%s", a, b, c)\<close>: the verb \<^verbatim>\<open>%s\<close> writes the bytes of a
      string or of a byte slice as they are\<close>
  "Fprintf_s_s_s m a b c = m @ a @ [0x0A] @ b @ [0x0A] @ c"

definition calculateSignature :: "Validator \<Rightarrow> string \<Rightarrow> string \<Rightarrow> bytes \<Rightarrow> bytes \<times> error option" where
  "calculateSignature v ts qp b =
     (let bh = sha256_Sum256 b;
          m = Fprintf_s_s_s [] (bytes_of_string ts) (bytes_of_string qp) bh
      in hMACSHA256 m (bytes_of_string (SigningKey v)))"

subsection \<open>encoding/hex\<close>

text \<open>
  The specification leaves open whether the digest of the body enters the signed message
  as its 32 bytes or as 64 hexadecimal digits. \<^verbatim>\<open>hex.EncodeToString\<close>, which the package
  does not call, is here for the second reading.
\<close>

definition hextable :: string where
  "hextable = ''0123456789abcdef''"

definition hex_EncodeToString :: "bytes \<Rightarrow> string" where
  "hex_EncodeToString src =
     concat (map (\<lambda>v. [hextable ! unat (drop_bit 4 v), hextable ! unat (v AND 0x0F)]) src)"

subsection \<open>net/url\<close>

definition Cut :: "string \<Rightarrow> char \<Rightarrow> string \<times> string \<times> bool" where
  \<comment> \<open>\<^verbatim>\<open>strings.Cut(s, sep)\<close> for a separator of one byte\<close>
  "Cut s sep =
     (if sep \<in> set s
      then (takeWhile (\<lambda>c. c \<noteq> sep) s, tl (dropWhile (\<lambda>c. c \<noteq> sep) s), True)
      else (s, [], False))"

definition stringContainsCTLByte :: "string \<Rightarrow> bool" where
  "stringContainsCTLByte s = (\<exists>c \<in> set s. (of_char c :: nat) < 0x20 \<or> (of_char c :: nat) = 0x7F)"

definition ishex :: "char \<Rightarrow> bool" where
  "ishex c =
     (let n = (of_char c :: nat)
      in 48 \<le> n \<and> n \<le> 57 \<or> 97 \<le> n \<and> n \<le> 102 \<or> 65 \<le> n \<and> n \<le> 70)"

definition unhex :: "char \<Rightarrow> nat" where
  "unhex c =
     (let n = (of_char c :: nat)
      in if 48 \<le> n \<and> n \<le> 57 then n - 48
         else if 97 \<le> n \<and> n \<le> 102 then n - 97 + 10
         else if 65 \<le> n \<and> n \<le> 70 then n - 65 + 10
         else 0)"

datatype encoding = encodeFragment | encodeQueryComponent

datatype url_error = EscapeError string | InvalidControlCharacter

text \<open>
  \<^verbatim>\<open>unescape\<close> in the two modes the validation reaches. A percent sign must be followed by
  two hexadecimal digits; a plus sign is a space in a query component.
\<close>

fun unescape :: "encoding \<Rightarrow> string \<Rightarrow> url_error + string" where
  "unescape mode [] = Inr []"
| "unescape mode (c # s) =
     (if c = CHR ''%'' then
        (case s of
           a # b # rest \<Rightarrow>
             if ishex a \<and> ishex b then
               (case unescape mode rest of
                  Inl err \<Rightarrow> Inl err
                | Inr t \<Rightarrow> Inr (char_of (unhex a * 16 + unhex b) # t))
             else Inl (EscapeError (take 3 (c # s)))
         | _ \<Rightarrow> Inl (EscapeError (take 3 (c # s))))
      else
        (case unescape mode s of
           Inl err \<Rightarrow> Inl err
         | Inr t \<Rightarrow>
             Inr ((if c = CHR ''+'' \<and> mode = encodeQueryComponent then CHR '' '' else c) # t)))"

definition QueryUnescape :: "string \<Rightarrow> url_error + string" where
  "QueryUnescape s = unescape encodeQueryComponent s"

definition shouldEscape :: "char \<Rightarrow> bool" where
  \<comment> \<open>\<^verbatim>\<open>shouldEscape(c, encodeQueryComponent)\<close>: all but letters, digits and \<^verbatim>\<open>-_.~\<close>\<close>
  "shouldEscape c =
     (let n = (of_char c :: nat)
      in \<not> (97 \<le> n \<and> n \<le> 122 \<or> 65 \<le> n \<and> n \<le> 90 \<or> 48 \<le> n \<and> n \<le> 57
            \<or> c = CHR ''-'' \<or> c = CHR ''_'' \<or> c = CHR ''.'' \<or> c = CHR ''~''))"

definition upperhex :: string where
  "upperhex = ''0123456789ABCDEF''"

definition QueryEscape :: "string \<Rightarrow> string" where
  "QueryEscape s =
     concat (map (\<lambda>c. if c = CHR '' '' then ''+''
                       else if shouldEscape c
                         then [CHR ''%'', upperhex ! ((of_char c :: nat) div 16),
                               upperhex ! ((of_char c :: nat) mod 16)]
                       else [c]) s)"

text \<open>
  \<^verbatim>\<open>url.Values\<close> is a \<^verbatim>\<open>map[string][]string\<close>: an association list with one entry for
  each key here. \<^verbatim>\<open>Values_add\<close> is \<^verbatim>\<open>m[key] = append(m[key], value)\<close>.
\<close>

type_synonym Values = "(string \<times> string list) list"

definition Values_get :: "Values \<Rightarrow> string \<Rightarrow> string list" where
  "Values_get m key = (case map_of m key of None \<Rightarrow> [] | Some vs \<Rightarrow> vs)"

fun Values_add :: "Values \<Rightarrow> string \<Rightarrow> string \<Rightarrow> Values" where
  "Values_add [] key val = [(key, [val])]"
| "Values_add ((k, vs) # m) key val =
     (if k = key then (k, vs @ [val]) # m else (k, vs) # Values_add m key val)"

text \<open>
  \<^verbatim>\<open>parseQuery\<close>: the query is cut at each \<^verbatim>\<open>&\<close>; a piece with a semicolon, an empty
  piece, and a piece whose key or value does not unescape add nothing. The error is the
  semicolon error of the last such piece, or else the first escape error.
\<close>

lemma Cut_rest_shorter:
  "s \<noteq> [] \<Longrightarrow> Cut s sep = (a, rest, found) \<Longrightarrow> length rest < length s"
proof -
  assume "s \<noteq> []" and c: "Cut s sep = (a, rest, found)"
  have "length (dropWhile (\<lambda>c. c \<noteq> sep) s) \<le> length s"
    by (rule length_dropWhile_le)
  with \<open>s \<noteq> []\<close> have "length (tl (dropWhile (\<lambda>c. c \<noteq> sep) s)) < length s"
    by (cases s) auto
  with c \<open>s \<noteq> []\<close> show ?thesis
    by (auto simp: Cut_def split: if_splits)
qed

function parseQuery :: "Values \<times> url_error option \<Rightarrow> string \<Rightarrow> Values \<times> url_error option" where
  "parseQuery (m, err) query =
     (if query = [] then (m, err)
      else
        case Cut query CHR ''&'' of (key, rest, found) \<Rightarrow>
          if CHR '';'' \<in> set key
            then parseQuery (m, Some (EscapeError ''invalid semicolon separator in query'')) rest
          else if key = [] then parseQuery (m, err) rest
          else
            case Cut key CHR ''='' of (k, val, found') \<Rightarrow>
              (case QueryUnescape k of
                 Inl err1 \<Rightarrow> parseQuery (m, if err = None then Some err1 else err) rest
               | Inr k1 \<Rightarrow>
                   (case QueryUnescape val of
                      Inl err1 \<Rightarrow> parseQuery (m, if err = None then Some err1 else err) rest
                    | Inr v1 \<Rightarrow> parseQuery (Values_add m k1 v1, err) rest)))"
  by pat_completeness auto
termination
  by (relation "measure (\<lambda>(a, q). length q)") (auto dest: Cut_rest_shorter [OF _ sym])

definition ParseQuery :: "string \<Rightarrow> Values \<times> url_error option" where
  "ParseQuery query = parseQuery ([], None) query"

text \<open>
  The key/value pairs that a raw query contains, in their order: the pairs that
  \<^verbatim>\<open>parseQuery\<close> adds to the map, one after the other. \<open>values_of k ps\<close> is the
  values that the pairs \<open>ps\<close> give to the key \<open>k\<close>, in their order.
\<close>

function query_pairs :: "string \<Rightarrow> (string \<times> string) list" where
  "query_pairs query =
     (if query = [] then []
      else
        case Cut query CHR ''&'' of (key, rest, found) \<Rightarrow>
          if CHR '';'' \<in> set key then query_pairs rest
          else if key = [] then query_pairs rest
          else
            case Cut key CHR ''='' of (k, val, found') \<Rightarrow>
              (case QueryUnescape k of
                 Inl err1 \<Rightarrow> query_pairs rest
               | Inr k1 \<Rightarrow>
                   (case QueryUnescape val of
                      Inl err1 \<Rightarrow> query_pairs rest
                    | Inr v1 \<Rightarrow> (k1, v1) # query_pairs rest)))"
  by pat_completeness auto
termination
  by (relation "measure length") (auto dest: Cut_rest_shorter [OF _ sym])

declare parseQuery.simps [simp del] query_pairs.simps [simp del]

definition values_of :: "string \<Rightarrow> (string \<times> string) list \<Rightarrow> string list" where
  "values_of k ps = map snd (filter (\<lambda>p. fst p = k) ps)"

definition Values_Encode :: "Values \<Rightarrow> string" where
  \<comment> \<open>\<^verbatim>\<open>Encode\<close>: the keys sorted, each value of a key in its order, joined by \<^verbatim>\<open>&\<close>\<close>
  "Values_Encode v =
     (if v = [] then []
      else
        fold (\<lambda>k buf.
               fold (\<lambda>val buf.
                      (if buf \<noteq> [] then buf @ ''&'' else buf)
                        @ QueryEscape k @ ''='' @ QueryEscape val)
                 (Values_get v k) buf)
          (sort (map fst v)) [])"

record URL =
  RawQuery :: string
  ForceQuery :: bool
  Fragment :: string

definition URL_Query :: "URL \<Rightarrow> Values" where
  \<comment> \<open>\<^verbatim>\<open>v, _ := ParseQuery(u.RawQuery)\<close>; the error is dropped\<close>
  "URL_Query u = fst (ParseQuery (RawQuery u))"

text \<open>
  \<^verbatim>\<open>url.Parse("?" + rqp)\<close>. The fragment is cut off at the first \<^verbatim>\<open>#\<close>; what is before
  it must have no control byte; it has no scheme, since it starts with \<^verbatim>\<open>?\<close>, and all that
  follows the \<^verbatim>\<open>?\<close> is the raw query, the path being empty; at last a fragment that is not
  empty must unescape. Scheme, authority and path are not kept in the record: they are empty
  for this argument.
\<close>

definition url_Parse_query :: "string \<Rightarrow> url_error + URL" where
  "url_Parse_query rqp =
     (case Cut (CHR ''?'' # rqp) CHR ''#'' of (u, frag, found) \<Rightarrow>
        if stringContainsCTLByte u then Inl InvalidControlCharacter
        else
          let url = (if u = ''?'' then \<lparr>RawQuery = [], ForceQuery = True, Fragment = []\<rparr>
                     else case Cut u CHR ''?'' of (rest, q, found') \<Rightarrow>
                       \<lparr>RawQuery = q, ForceQuery = False, Fragment = []\<rparr>)
          in if frag = [] then Inr url
             else case unescape encodeFragment frag of
                    Inl err \<Rightarrow> Inl err
                  | Inr f \<Rightarrow> Inr (url\<lparr>Fragment := f\<rparr>))"

subsection \<open>validSignature\<close>

definition validSignature :: "Validator \<Rightarrow> string \<Rightarrow> string \<Rightarrow> bytes \<Rightarrow> string \<Rightarrow> bool" where
  "validSignature v ts rqp b rs =
     (case url_Parse_query rqp of
        Inl err \<Rightarrow> False
      | Inr uqp \<Rightarrow>
          (case calculateSignature v ts (Values_Encode (URL_Query uqp)) b of
             (es, Some err) \<Rightarrow> False
           | (es, None) \<Rightarrow>
               (case DecodeString rs of
                  Inl err \<Rightarrow> False
                | Inr drs \<Rightarrow> hmac_Equal drs es)))"

subsection \<open>net/http: headers, bodies, requests and responses\<close>

definition tsHeader :: string where
  "tsHeader = ''MessageBird-Request-Timestamp''"

definition sHeader :: string where
  "sHeader = ''MessageBird-Signature''"

definition validHeaderFieldByte :: "char \<Rightarrow> bool" where
  \<comment> \<open>the token characters of RFC 7230\<close>
  "validHeaderFieldByte c =
     (let n = (of_char c :: nat)
      in 97 \<le> n \<and> n \<le> 122 \<or> 65 \<le> n \<and> n \<le> 90 \<or> 48 \<le> n \<and> n \<le> 57
         \<or> c \<in> set ''!#$%&*+-.^_`|~'' \<or> n = 39)"

fun canonical_bytes :: "bool \<Rightarrow> string \<Rightarrow> string" where
  "canonical_bytes upper [] = []"
| "canonical_bytes upper (c # s) =
     (let n = (of_char c :: nat);
          c' = (if upper \<and> 97 \<le> n \<and> n \<le> 122 then char_of (n - 32)
                else if \<not> upper \<and> 65 \<le> n \<and> n \<le> 90 then char_of (n + 32)
                else c)
      in c' # canonical_bytes (c' = CHR ''-'') s)"

definition CanonicalMIMEHeaderKey :: "string \<Rightarrow> string" where
  \<comment> \<open>a key with a byte that is no token character is returned as it is\<close>
  "CanonicalMIMEHeaderKey s =
     (if \<forall>c \<in> set s. validHeaderFieldByte c then canonical_bytes True s else s)"

type_synonym Header = "string \<rightharpoonup> string list"

definition Header_Get :: "Header \<Rightarrow> string \<Rightarrow> string" where
  "Header_Get h key =
     (case h (CanonicalMIMEHeaderKey key) of
        None \<Rightarrow> []
      | Some [] \<Rightarrow> []
      | Some (x # xs) \<Rightarrow> x)"

text \<open>
  A body is an \<^verbatim>\<open>io.ReadCloser\<close>: the bytes that are still to be read, and the error that
  ends the reading when it is not the end of the stream. \<^verbatim>\<open>ioutil.ReadAll\<close> reads to the
  end or to the error and returns the bytes it read with the error. The body of a request
  that a server received is never nil.
\<close>

record ReadCloser =
  unread :: bytes
  failure :: "error option"

definition ReadAll :: "ReadCloser \<Rightarrow> (bytes \<times> error option) \<times> ReadCloser" where
  "ReadAll r = ((unread r, failure r), r\<lparr>unread := []\<rparr>)"

definition NopCloser_NewBuffer :: "bytes \<Rightarrow> ReadCloser" where
  \<comment> \<open>\<^verbatim>\<open>ioutil.NopCloser(bytes.NewBuffer(b))\<close>\<close>
  "NopCloser_NewBuffer b = \<lparr>unread = b, failure = None\<rparr>"

record Request =
  Header :: Header
  Host :: string
  URL_RawQuery :: string
  Body :: ReadCloser

record ResponseWriter =
  header :: Header
  status :: "nat option"
  written :: bytes

definition WriteHeader :: "ResponseWriter \<Rightarrow> nat \<Rightarrow> ResponseWriter" where
  "WriteHeader w code = (if status w = None then w\<lparr>status := Some code\<rparr> else w)"

definition Write :: "ResponseWriter \<Rightarrow> bytes \<Rightarrow> ResponseWriter" where
  "Write w p = (WriteHeader w 200)\<lparr>written := written w @ p\<rparr>"

definition StatusUnauthorized :: nat where
  "StatusUnauthorized = 401"

definition http_Error :: "ResponseWriter \<Rightarrow> string \<Rightarrow> nat \<Rightarrow> ResponseWriter" where
  "http_Error w err code =
     (let h = (header w) (''Content-Length'' := None);
          h = h (''Content-Type'' \<mapsto> [''text/plain; charset=utf-8'']);
          h = h (''X-Content-Type-Options'' \<mapsto> [''nosniff'']);
          w = WriteHeader (w\<lparr>header := h\<rparr>) code
      in Write w (bytes_of_string err @ [0x0A]))"

subsection \<open>ValidRequest and Validate\<close>

text \<open>
  \<^verbatim>\<open>ValidRequest\<close> returns its error and the request as it leaves it: the body is the only
  field it changes. The second operand of \<^verbatim>\<open>||\<close> is evaluated only when the first is
  false, as \<open>\<or>\<close> on the results is. \<^verbatim>\<open>fmt.Errorf("Unknown host: %s", r.Host)\<close> is the
  error whose text is that.
\<close>

definition Errorf_Unknown_host :: "string \<Rightarrow> error" where
  "Errorf_Unknown_host host = Error (''Unknown host: '' @ host)"

definition ValidRequest ::
  "memory \<Rightarrow> Time \<Rightarrow> Validator \<Rightarrow> Request \<Rightarrow> error option \<times> Request" where
  "ValidRequest mem now v r =
     (let ts = Header_Get (Header r) tsHeader;
          rs = Header_Get (Header r) sHeader
      in if ts = [] \<or> rs = [] then (Some (Errorf_Unknown_host (Host r)), r)
         else
           case ReadAll (Body r) of ((b, err), body') \<Rightarrow>
             let r1 = r\<lparr>Body := body'\<rparr> in
             if validTimestamp mem now v ts = False
                  \<or> validSignature v ts (URL_RawQuery r1) b rs = False
               then (Some (Errorf_Unknown_host (Host r1)), r1)
             else (None, r1\<lparr>Body := NopCloser_NewBuffer b\<rparr>))"

type_synonym Handler = "ResponseWriter \<times> Request \<Rightarrow> ResponseWriter \<times> Request"

definition Validate :: "memory \<Rightarrow> Time \<Rightarrow> Validator \<Rightarrow> Handler \<Rightarrow> Handler" where
  "Validate mem now v h = (\<lambda>(w, r).
     case ValidRequest mem now v r of
       (Some err, r') \<Rightarrow> (http_Error w [] StatusUnauthorized, r')
     | (None, r') \<Rightarrow> h (w, r'))"

text \<open>
  Requests and response writers for the examples: the request that the server hands to a
  handler for header lines with distinct names (the server stores each name in its canonical
  form), a raw query and a body, sent to the host \<^verbatim>\<open>example.com\<close>; and a response writer
  to which nothing was written yet.
\<close>

definition server_request :: "(string \<times> string) list \<Rightarrow> string \<Rightarrow> bytes \<Rightarrow> Request" where
  "server_request lines q b =
     \<lparr>Header = map_of (map (\<lambda>(k, v). (CanonicalMIMEHeaderKey k, [v])) lines),
      Host = ''example.com'', URL_RawQuery = q, Body = \<lparr>unread = b, failure = None\<rparr>\<rparr>"

definition new_ResponseWriter :: ResponseWriter where
  "new_ResponseWriter = \<lparr>header = Map.empty, status = None, written = []\<rparr>"

section \<open>Properties\<close>

subsection \<open>Parsing of the timestamp\<close>

lemma stringToTime_Inr_iff:
  "(\<exists>t. stringToTime s = Inr t) \<longleftrightarrow> (\<exists>sec. strconv_ParseInt s = Inr sec)"
  by (auto simp: stringToTime_def split: sum.splits)

lemma sint_word_of_int_64:
  "- 9223372036854775808 \<le> x \<Longrightarrow> x \<le> 9223372036854775807
     \<Longrightarrow> sint (word_of_int x :: 64 word) = x"
  by (simp add: signed_of_int signed_take_bit_int_eq_self)

lemma sint_Time_Sub:
  "sint (Time_Sub a b) =
     (if a - b > 9223372036854775807 then 9223372036854775807
      else if a - b < - 9223372036854775808 then - 9223372036854775808
      else a - b)"
  by (simp add: Time_Sub_def maxDuration_def minDuration_def sint_word_of_int_64
      del: of_int_diff)

lemma sint_64_range:
  "- 9223372036854775808 \<le> sint (w :: 64 word) \<and> sint w \<le> 9223372036854775807"
  using sint_ge [of w] sint_lt [of w] by simp

lemma sint_Duration_div2: "sint (Duration_div w 2) = sint w sdiv 2"
proof -
  have "- 9223372036854775808 \<le> sint w sdiv 2 \<and> sint w sdiv 2 \<le> 9223372036854775807"
    using sint_64_range [of w] by (auto simp: signed_divide_int_def sgn_if)
  then show ?thesis
    by (simp add: Duration_div_def sint_word_of_int_64)
qed

lemma ParseInt_examples:
  "strconv_ParseInt ''-9223372036854775808'' = Inr (- 9223372036854775808)"
  "strconv_ParseInt ''9223372036854775807'' = Inr 9223372036854775807"
  "strconv_ParseInt ''1000000000'' = Inr 1000000000"
  "strconv_ParseInt ''0'' = Inr 0"
  "strconv_ParseInt [] = Inl ErrSyntax"
  "strconv_ParseInt ''yesterday'' = Inl ErrSyntax"
  "strconv_ParseInt ''1.5'' = Inl ErrSyntax"
  "strconv_ParseInt ''9223372036854775808'' = Inl ErrRange"
  by (simp_all add: strconv_ParseInt_def strconv_ParseUint_def maxUint64_def)

subsection \<open>The comparison of two authentication codes\<close>

lemma unat_byte_less: "unat (v :: byte) < 256"
  using unsigned_less [of v, where 'a = nat] by simp

lemma unat_ucast_byte: "unat (ucast (v :: byte) :: uint32) = unat v"
  using unat_byte_less [of v] by (simp add: unsigned_ucast_eq take_bit_nat_eq_self)

lemma ConstantTimeByteEq_0: "ConstantTimeByteEq v 0 = (if v = 0 then 1 else 0)"
proof (cases "v = 0")
  case True
  then show ?thesis by (simp add: ConstantTimeByteEq_def)
next
  case False
  let ?x = "ucast v :: uint32"
  have "unat ?x \<noteq> 0"
    using False by (simp add: unat_ucast_byte unsigned_eq_0_iff)
  then have nz: "?x \<noteq> 0" by auto
  have "unat (?x - 1) = unat v - 1"
    by (simp add: unat_minus_one [OF nz] unat_ucast_byte)
  then have "unat (?x - 1) < 2 ^ 31"
    using unat_byte_less [of v] by simp
  then have "drop_bit 31 (unat (?x - 1)) = 0"
    by (simp add: drop_bit_eq_div)
  then have "unat (drop_bit 31 (?x - 1)) = 0"
    by (simp only: unat_drop_bit_eq)
  then have "drop_bit 31 (?x - 1) = 0"
    by (simp add: unsigned_eq_0_iff)
  with False show ?thesis by (simp add: ConstantTimeByteEq_def)
qed

lemma xor_eq_0_iff_byte: "a XOR b = 0 \<longleftrightarrow> a = b" for a b :: byte
proof
  assume "a XOR b = 0"
  then have "a XOR (a XOR b) = a" by simp
  then show "a = b" by (simp flip: xor.assoc)
qed simp

lemma fold_or_xor_zero:
  "fold (\<lambda>(a, b) v. v OR (a XOR b)) ps (v0 :: byte) = 0 \<longleftrightarrow> v0 = 0 \<and> (\<forall>(a, b) \<in> set ps. a = b)"
  by (induction ps arbitrary: v0) (auto simp: or_eq_0_iff xor_eq_0_iff_byte)

lemma hmac_Equal_iff: "hmac_Equal x y \<longleftrightarrow> x = y"
  by (auto simp: hmac_Equal_def ConstantTimeCompare_def ConstantTimeByteEq_0 fold_or_xor_zero
      list_eq_iff_zip_eq)

subsection \<open>Base64: decoding what was encoded\<close>

lemma mask6: "(0x3F :: uint32) = mask 6"
  by (simp add: mask_eq_exp_minus_1)

lemma decodeMap_alphabet:
  "list_all (\<lambda>i. decodeMap (encodeStd ! i) = word_of_nat i) [0..<64]"
  by code_simp

lemma decodeMap_encodeStd: "i < 64 \<Longrightarrow> decodeMap (encodeStd ! i) = word_of_nat i"
  using decodeMap_alphabet by (simp add: list_all_iff)

lemma decodeMap_pad: "decodeMap CHR ''='' = 0xFF"
  by code_simp

lemma unat_and_63: "unat (x AND 0x3F :: uint32) < 64"
proof -
  have "unat (x AND mask 6) < 2 ^ 6"
    by (simp only: take_bit_eq_mask [symmetric] unsigned_take_bit_eq take_bit_nat_less_exp)
  then show ?thesis by (simp add: mask6)
qed

lemma decodeMap_enc: "decodeMap (enc x) = ucast (x AND 0x3F)"
  by (simp add: enc_def decodeMap_encodeStd unat_and_63)

lemma sextet_valid: "(ucast (x AND 0x3F :: uint32) :: byte) \<noteq> 0xFF"
proof -
  have "unat (ucast (x AND 0x3F) :: byte) < 64"
    using unat_and_63 [of x] by (simp add: unsigned_ucast_eq take_bit_nat_eq_self)
  then show ?thesis
    by auto
qed


lemma sextets_join:
  "push_bit 18 (ucast (ucast (drop_bit 18 v AND 0x3F) :: byte) :: uint32)
     OR push_bit 12 (ucast (ucast (drop_bit 12 v AND 0x3F) :: byte))
     OR push_bit 6 (ucast (ucast (drop_bit 6 v AND 0x3F) :: byte))
     OR ucast (ucast (v AND 0x3F) :: byte) = take_bit 24 v" (is "?l = ?r") for v :: uint32
proof (rule bit_word_eqI)
  fix n :: nat
  consider "n < 6" | "6 \<le> n" "n < 12" | "12 \<le> n" "n < 18" | "18 \<le> n" "n < 24" | "24 \<le> n"
    by linarith
  then show "bit ?l n \<longleftrightarrow> bit ?r n"
    by cases (auto simp: mask6 bit_simps)
qed

lemma replicate_2: "replicate 2 x = [x, x]"
  by (simp add: numeral_2_eq_2)

lemma quantum4:
  fixes v :: uint32
  assumes "take_bit 24 v = v"
  shows "quantum_bytes [ucast (drop_bit 18 v AND 0x3F), ucast (drop_bit 12 v AND 0x3F),
           ucast (drop_bit 6 v AND 0x3F), ucast (v AND 0x3F)]
         = [ucast (drop_bit 16 v), ucast (drop_bit 8 v), ucast v]"
proof -
  have "quantum_val [ucast (drop_bit 18 v AND 0x3F), ucast (drop_bit 12 v AND 0x3F),
           ucast (drop_bit 6 v AND 0x3F), ucast (v AND 0x3F)] = v"
    by (simp add: quantum_val_def sextets_join assms)
  then show ?thesis
    by (simp add: quantum_bytes_def)
qed

lemma quantum3:
  fixes v :: uint32
  assumes "take_bit 24 v = v" and "v AND 0x3F = 0"
  shows "quantum_bytes [ucast (drop_bit 18 v AND 0x3F), ucast (drop_bit 12 v AND 0x3F),
           ucast (drop_bit 6 v AND 0x3F)]
         = [ucast (drop_bit 16 v), ucast (drop_bit 8 v)]"
proof -
  have "quantum_val [ucast (drop_bit 18 v AND 0x3F), ucast (drop_bit 12 v AND 0x3F),
           ucast (drop_bit 6 v AND 0x3F), 0] = v"
    using sextets_join [of v] by (simp add: quantum_val_def assms)
  then show ?thesis
    by (simp add: quantum_bytes_def)
qed

lemma quantum2:
  fixes v :: uint32
  assumes "take_bit 24 v = v" and "v AND 0x3F = 0" and "drop_bit 6 v AND 0x3F = 0"
  shows "quantum_bytes [ucast (drop_bit 18 v AND 0x3F), ucast (drop_bit 12 v AND 0x3F)]
         = [ucast (drop_bit 16 v)]"
proof -
  have "quantum_val [ucast (drop_bit 18 v AND 0x3F), ucast (drop_bit 12 v AND 0x3F), 0, 0] = v"
    using sextets_join [of v] by (simp add: quantum_val_def assms)
  then show ?thesis
    by (simp add: quantum_bytes_def replicate_2)
qed

lemma val3:
  fixes a b c :: byte
  defines "v \<equiv> push_bit 16 (ucast a) OR push_bit 8 (ucast b) OR ucast c :: uint32"
  shows "take_bit 24 v = v" "ucast (drop_bit 16 v) = a" "ucast (drop_bit 8 v) = b" "ucast v = c"
  unfolding v_def by (rule bit_word_eqI; auto simp: bit_simps dest: bit_imp_le_length)+

lemma val2:
  fixes a b :: byte
  defines "v \<equiv> push_bit 16 (ucast a) OR push_bit 8 (ucast b) :: uint32"
  shows "take_bit 24 v = v" "ucast (drop_bit 16 v) = a" "ucast (drop_bit 8 v) = b"
    "v AND 0x3F = 0"
  unfolding v_def mask6 by (rule bit_word_eqI; auto simp: bit_simps dest: bit_imp_le_length)+

lemma val1:
  fixes a :: byte
  defines "v \<equiv> push_bit 16 (ucast a) :: uint32"
  shows "take_bit 24 v = v" "ucast (drop_bit 16 v) = a" "v AND 0x3F = 0"
    "drop_bit 6 v AND 0x3F = 0"
  unfolding v_def mask6 by (rule bit_word_eqI; auto simp: bit_simps dest: bit_imp_le_length)+

lemma decode_quantum4:
  "decode [] acc (enc (drop_bit 18 v) # enc (drop_bit 12 v) # enc (drop_bit 6 v) # enc v # rest)
     = decode [] (acc @ quantum_bytes [ucast (drop_bit 18 v AND 0x3F),
         ucast (drop_bit 12 v AND 0x3F), ucast (drop_bit 6 v AND 0x3F), ucast (v AND 0x3F)]) rest"
  by (simp add: sextet_valid decodeMap_enc)

lemma decode_quantum3:
  "decode [] acc [enc (drop_bit 18 v), enc (drop_bit 12 v), enc (drop_bit 6 v), CHR ''='']
     = Inr (acc @ quantum_bytes [ucast (drop_bit 18 v AND 0x3F),
         ucast (drop_bit 12 v AND 0x3F), ucast (drop_bit 6 v AND 0x3F)])"
  by (simp add: sextet_valid decodeMap_enc decodeMap_pad decode_padding_def is_newline_def)

lemma decode_quantum2:
  "decode [] acc [enc (drop_bit 18 v), enc (drop_bit 12 v), CHR ''='', CHR ''='']
     = Inr (acc @ quantum_bytes [ucast (drop_bit 18 v AND 0x3F), ucast (drop_bit 12 v AND 0x3F)])"
  by (simp add: sextet_valid decodeMap_enc decodeMap_pad decode_padding_def is_newline_def)

lemma decode_EncodeToString: "decode [] acc (EncodeToString src) = Inr (acc @ src)"
proof (induction src arbitrary: acc rule: EncodeToString.induct)
  case (1 a b c src)
  have "decode [] acc (EncodeToString (a # b # c # src)) = decode [] (acc @ [a, b, c]) (EncodeToString src)"
    by (simp only: EncodeToString.simps Let_def decode_quantum4 quantum4 [OF val3(1)] val3)
  then show ?case
    by (simp add: 1)
next
  case (2 a b)
  show ?case
    by (simp only: EncodeToString.simps Let_def decode_quantum3 quantum3 [OF val2(1) val2(4)] val2)
next
  case (3 a)
  show ?case
    by (simp only: EncodeToString.simps Let_def decode_quantum2
        quantum2 [OF val1(1) val1(3) val1(4)] val1)
next
  case 4
  show ?case by simp
qed

lemma DecodeString_EncodeToString: "DecodeString (EncodeToString src) = Inr src"
  by (simp add: DecodeString_def decode_EncodeToString)

subsection \<open>The digest and the authentication code\<close>

lemma length_round256: "length (round256 kw s) = length s"
  by (cases "(kw, s)" rule: round256.cases) (auto simp: Let_def)

lemma length_fold_round256: "length (fold round256 kws s) = length s"
  by (induction kws arbitrary: s) (auto simp: length_round256)

lemma length_sha256_block: "length (sha256_block hs p) = length hs"
  by (simp add: sha256_block_def length_fold_round256)

lemma length_sha256_blocks: "length (sha256_blocks hs p) = length hs"
  by (induction hs p rule: sha256_blocks.induct)
     (subst sha256_blocks.simps, simp add: length_sha256_block)

lemma length_concat_be_bytes32: "length (concat (map be_bytes32 ws)) = 4 * length ws"
  by (induction ws) (auto simp: be_bytes32_def)

lemma length_sha256_Sum256: "length (sha256_Sum256 data) = 32"
  by (simp add: sha256_Sum256_def length_concat_be_bytes32 length_sha256_blocks sha256_init_def)

lemma hMACSHA256_eq: "hMACSHA256 message key = (HMAC_SHA256 key message, None)"
  by (simp add: hMACSHA256_def hmac_New_def hmac_Write_def hmac_Sum_def sha256_Write_def
      sha256_Sum_def sha256_New_def HMAC_SHA256_def Let_def)

lemma length_HMAC_SHA256: "length (HMAC_SHA256 key message) = 32"
  by (simp add: HMAC_SHA256_def Let_def length_sha256_Sum256)

lemma calculateSignature_eq:
  "calculateSignature v ts qp b =
     (HMAC_SHA256 (bytes_of_string (SigningKey v))
        (bytes_of_string ts @ [0x0A] @ bytes_of_string qp @ [0x0A] @ sha256_Sum256 b), None)"
  by (simp add: calculateSignature_def Fprintf_s_s_s_def hMACSHA256_eq)

subsection \<open>validSignature\<close>

lemma validSignature_iff:
  "validSignature v ts rqp b rs \<longleftrightarrow>
     (\<exists>u. url_Parse_query rqp = Inr u \<and>
          DecodeString rs = Inr (fst (calculateSignature v ts (Values_Encode (URL_Query u)) b)))"
  by (auto simp: validSignature_def calculateSignature_eq hmac_Equal_iff split: sum.splits)

lemma validSignature_parse_error:
  "url_Parse_query rqp = Inl err \<Longrightarrow> \<not> validSignature v ts rqp b rs"
  by (simp add: validSignature_iff)

lemma validSignature_roundtrip:
  "url_Parse_query rqp = Inr u \<Longrightarrow>
     validSignature v ts rqp b
       (EncodeToString (fst (calculateSignature v ts (Values_Encode (URL_Query u)) b)))"
  by (simp add: validSignature_iff DecodeString_EncodeToString)

subsection \<open>The freshness check\<close>

text \<open>
  C7. With \<^verbatim>\<open>Period\<close> nil, \<^verbatim>\<open>validTimestamp\<close> is true exactly for the strings that
  \<^verbatim>\<open>strconv.ParseInt\<close> accepts, whatever the clock and the memory are: the smallest and
  the largest \<^verbatim>\<open>int64\<close> are accepted, and the empty string, a word, a number with a
  fraction and a number beyond \<^verbatim>\<open>int64\<close> are refused.
\<close>

theorem validTimestamp_nil_Period:
  "(validTimestamp mem now \<lparr>SigningKey = k, Period = None\<rparr> ts
      = (\<exists>sec. strconv_ParseInt ts = Inr sec)) \<and>
   validTimestamp mem now \<lparr>SigningKey = k, Period = None\<rparr> ''-9223372036854775808'' \<and>
   validTimestamp mem now \<lparr>SigningKey = k, Period = None\<rparr> ''9223372036854775807'' \<and>
   \<not> validTimestamp mem now \<lparr>SigningKey = k, Period = None\<rparr> [] \<and>
   \<not> validTimestamp mem now \<lparr>SigningKey = k, Period = None\<rparr> ''yesterday'' \<and>
   \<not> validTimestamp mem now \<lparr>SigningKey = k, Period = None\<rparr> ''1.5'' \<and>
   \<not> validTimestamp mem now \<lparr>SigningKey = k, Period = None\<rparr> ''9223372036854775808''"
  by (auto simp: validTimestamp_def stringToTime_def ParseInt_examples split: sum.splits)

text \<open>
  C2 (as stated). With the window \<open>W = 1\<close> nanosecond the half window \<open>W / 2\<close> is \<open>0\<close>,
  so the timestamp that equals the clock gives \<open>diff = 0\<close> and is refused.
\<close>

theorem validTimestamp_now_refused:
  "stringToTime ''0'' = Inr 0 \<and>
   \<not> validTimestamp (init_memory (ValidityWindow_addr := 1)) 0 (NewValidator ''secret'') ''0''"
  by (simp add: validTimestamp_def stringToTime_def ParseInt_examples NewValidator_def
      time_Unix_def Time_Add_def Time_Sub_def Duration_div_def maxDuration_def minDuration_def
      signed_divide_int_def)

text \<open>
  C2 (amended). For a validator with a window \<open>W = *v.Period\<close> and a timestamp that parses
  as the integer \<open>sec\<close>, let \<open>diff = (now + W / 2) - sec\<close> seconds, in nanoseconds, with Go's
  truncating \<open>W / 2\<close>. \<^verbatim>\<open>validTimestamp\<close> accepts iff \<open>0 < diff < W\<close>, both strict; so
  \<open>diff = 0\<close> and \<open>diff = W\<close> are refused, and the timestamp equal to the clock is accepted
  when \<open>W\<close> is at least two nanoseconds.
\<close>

theorem validTimestamp_window:
  assumes "Period v = Some p" and "strconv_ParseInt ts = Inr sec"
  shows "(validTimestamp mem now v ts \<longleftrightarrow>
            0 < now + sint (mem p) sdiv 2 - sint sec * 1000000000 \<and>
            now + sint (mem p) sdiv 2 - sint sec * 1000000000 < sint (mem p)) \<and>
         (now + sint (mem p) sdiv 2 - sint sec * 1000000000 = 0
            \<longrightarrow> \<not> validTimestamp mem now v ts) \<and>
         (now + sint (mem p) sdiv 2 - sint sec * 1000000000 = sint (mem p)
            \<longrightarrow> \<not> validTimestamp mem now v ts) \<and>
         (now = sint sec * 1000000000 \<and> 2 \<le> sint (mem p)
            \<longrightarrow> validTimestamp mem now v ts)"
proof -
  let ?d = "now + sint (mem p) sdiv 2 - sint sec * 1000000000"
  have iff: "validTimestamp mem now v ts \<longleftrightarrow> 0 < ?d \<and> ?d < sint (mem p)"
    using assms sint_64_range [of "mem p"]
    by (auto simp: validTimestamp_def stringToTime_def Let_def word_sless_alt sint_Time_Sub
        sint_Duration_div2 time_Unix_def Time_Add_def split: if_splits)
  have half: "2 \<le> sint (mem p) \<Longrightarrow> 0 < sint (mem p) sdiv 2 \<and> sint (mem p) sdiv 2 < sint (mem p)"
    by (auto simp: signed_divide_int_def sgn_if)
  show ?thesis
    using iff half by auto
qed

theorem validTimestamp_window_witness:
  "\<not> validTimestamp init_memory 997500000000 (NewValidator ''secret'') ''1000'' \<and>
   \<not> validTimestamp init_memory 1002500000000 (NewValidator ''secret'') ''1000'' \<and>
   validTimestamp init_memory 1000000000000 (NewValidator ''secret'') ''1000'' \<and>
   validTimestamp init_memory 1002499999999 (NewValidator ''secret'') ''1000'' \<and>
   validTimestamp init_memory 997500000001 (NewValidator ''secret'') ''1000''"
proof -
  have p: "Period (NewValidator ''secret'') = Some ValidityWindow_addr"
    by (simp add: NewValidator_def)
  have ts: "strconv_ParseInt ''1000'' = Inr 1000"
    by (simp add: strconv_ParseInt_def strconv_ParseUint_def maxUint64_def)
  have w: "sint (init_memory ValidityWindow_addr) = 5000000000"
    by (simp add: init_memory_def Second_def)
  have h: "(5000000000 :: int) sdiv 2 = 2500000000"
    by (simp add: signed_divide_int_def)
  show ?thesis
    using validTimestamp_window [OF p ts, of init_memory 997500000000]
      validTimestamp_window [OF p ts, of init_memory 1002500000000]
      validTimestamp_window [OF p ts, of init_memory 1000000000000]
      validTimestamp_window [OF p ts, of init_memory 1002499999999]
      validTimestamp_window [OF p ts, of init_memory 997500000001]
    by (simp add: w h)
qed

lemma url_Parse_query_plain:
  "CHR ''#'' \<notin> set q \<Longrightarrow> \<not> stringContainsCTLByte q \<Longrightarrow>
     url_Parse_query q = Inr \<lparr>RawQuery = q, ForceQuery = (q = []), Fragment = []\<rparr>"
  by (auto simp: url_Parse_query_def Cut_def stringContainsCTLByte_def)

lemmas query_eval =
  parseQuery.simps query_pairs.simps values_of_def ParseQuery_def Cut_def QueryUnescape_def Values_Encode_def Values_get_def
  QueryEscape_def shouldEscape_def ishex_def unhex_def upperhex_def URL_Query_def

lemmas url_eval = url_Parse_query_def Cut_def stringContainsCTLByte_def ishex_def

text \<open>
  C1 (as stated). \<^verbatim>\<open>url.Parse\<close> refuses the raw query \<^verbatim>\<open>a=1#%\<close>, whose fragment is a
  percent sign with no digits, and a raw query with a control byte; \<^verbatim>\<open>validSignature\<close>
  is then false for every signature, also for the signature computed over the canonical form
  of the query, be it the form of the part before the \<^verbatim>\<open>#\<close> or of the whole string.
\<close>

theorem validSignature_round_trip_refused:
  "\<not> validSignature (NewValidator ''secret'') ''1000000000'' ''a=1#%'' []
       (EncodeToString (fst (calculateSignature (NewValidator ''secret'') ''1000000000''
          ''a=1'' []))) \<and>
   \<not> validSignature (NewValidator ''secret'') ''1000000000'' ''a=1#%'' []
       (EncodeToString (fst (calculateSignature (NewValidator ''secret'') ''1000000000''
          (Values_Encode (fst (ParseQuery ''a=1#%''))) []))) \<and>
   \<not> validSignature (NewValidator ''secret'') ''1000000000'' [CHR ''a'', CHR 0x01] []
       (EncodeToString (fst (calculateSignature (NewValidator ''secret'') ''1000000000''
          (Values_Encode (fst (ParseQuery [CHR ''a'', CHR 0x01]))) [])))"
proof -
  have "url_Parse_query ''a=1#%'' = Inl (EscapeError ''%'')"
    by (simp add: url_eval)
  moreover have "url_Parse_query [CHR ''a'', CHR 0x01] = Inl InvalidControlCharacter"
    by (simp add: url_eval)
  ultimately show ?thesis
    by (simp add: validSignature_parse_error)
qed

text \<open>
  C1 (amended). For every signing key, timestamp string and body, and every raw query string
  that \<^verbatim>\<open>url.Parse\<close> accepts behind a \<^verbatim>\<open>?\<close>, \<^verbatim>\<open>validSignature\<close> accepts the Base64
  encoding of the signature that \<^verbatim>\<open>calculateSignature\<close> computes over the same timestamp,
  the canonical form of the query and the same body.
\<close>

theorem validSignature_round_trip:
  assumes "url_Parse_query rqp = Inr u"
  shows "validSignature v ts rqp b
           (EncodeToString (fst (calculateSignature v ts (Values_Encode (URL_Query u)) b)))"
  using assms by (rule validSignature_roundtrip)

theorem validSignature_round_trip_witness:
  "validSignature (NewValidator ''secret'') ''1000000000'' ''b=2&a=1'' [0x7B, 0x7D]
     (EncodeToString (fst (calculateSignature (NewValidator ''secret'') ''1000000000''
        ''a=1&b=2'' [0x7B, 0x7D])))"
proof -
  have p: "url_Parse_query ''b=2&a=1''
             = Inr \<lparr>RawQuery = ''b=2&a=1'', ForceQuery = False, Fragment = []\<rparr>"
    by (simp add: url_eval)
  have e: "Values_Encode (URL_Query \<lparr>RawQuery = ''b=2&a=1'', ForceQuery = False, Fragment = []\<rparr>)
             = ''a=1&b=2''"
    by (simp add: query_eval)
  show ?thesis
    using validSignature_round_trip [OF p, of "NewValidator ''secret''" "''1000000000''"
        "[0x7B, 0x7D]"]
    by (simp only: e)
qed

subsection \<open>The canonical form of a query\<close>

lemma parseQuery_pairs:
  "fst (parseQuery (m, err) query) = fold (\<lambda>(k, v) m. Values_add m k v) (query_pairs query) m"
proof (induction "length query" arbitrary: m err query rule: less_induct)
  case less
  show ?case
  proof (cases "query = []")
    case True
    then show ?thesis
      by (simp add: parseQuery.simps query_pairs.simps)
  next
    case False
    obtain key rest found where c: "Cut query CHR ''&'' = (key, rest, found)"
      by (cases "Cut query CHR ''&''") auto
    have "length rest < length query"
      using False c by (rule Cut_rest_shorter)
    then have IH: "fst (parseQuery (m', err') rest)
        = fold (\<lambda>(k, v) m. Values_add m k v) (query_pairs rest) m'" for m' err'
      by (rule less)
    show ?thesis
      by (subst parseQuery.simps, subst query_pairs.simps)
         (simp add: False c IH split: prod.splits sum.splits)
  qed
qed

lemma Values_get_add:
  "Values_get (Values_add m k v) k' = Values_get m k' @ (if k' = k then [v] else [])"
  by (induction m) (auto simp: Values_get_def)

lemma map_fst_Values_add:
  "map fst (Values_add m k v) = (if k \<in> set (map fst m) then map fst m else map fst m @ [k])"
  by (induction m) (auto simp: rev_image_eqI)

lemma keys_Values_add: "set (map fst (Values_add m k v)) = insert k (set (map fst m))"
  by (auto simp only: map_fst_Values_add split: if_splits) auto

lemma distinct_Values_add:
  "distinct (map fst m) \<Longrightarrow> distinct (map fst (Values_add m k v))"
  by (simp only: map_fst_Values_add split: if_splits) simp

lemma Values_get_fold:
  "Values_get (fold (\<lambda>(k, v) m. Values_add m k v) ps m) k = Values_get m k @ values_of k ps"
  by (induction ps arbitrary: m) (auto simp: Values_get_add values_of_def)

lemma keys_fold:
  "set (map fst (fold (\<lambda>(k, v) m. Values_add m k v) ps m))
     = set (map fst m) \<union> set (map fst ps)"
proof (induction ps arbitrary: m)
  case Nil
  show ?case by simp
next
  case (Cons p ps)
  obtain k v where p: "p = (k, v)" by (cases p)
  show ?case
    unfolding p fold_Cons comp_apply prod.case Cons keys_Values_add by simp
qed

lemma distinct_fold:
  "distinct (map fst m) \<Longrightarrow> distinct (map fst (fold (\<lambda>(k, v) m. Values_add m k v) ps m))"
  by (induction ps arbitrary: m) (auto simp: distinct_Values_add)

lemma values_of_Nil_iff: "values_of k ps = [] \<longleftrightarrow> k \<notin> set (map fst ps)"
  by (induction ps) (auto simp: values_of_def)

lemma Values_Encode_fold:
  "Values_Encode v =
     fold (\<lambda>k buf.
             fold (\<lambda>val buf. (if buf \<noteq> [] then buf @ ''&'' else buf)
                      @ QueryEscape k @ ''='' @ QueryEscape val)
               (Values_get v k) buf)
       (sort (map fst v)) []"
  by (simp add: Values_Encode_def)

lemma Values_Encode_cong:
  assumes "distinct (map fst m1)" and "distinct (map fst m2)"
    and "set (map fst m1) = set (map fst m2)"
    and "\<And>k. Values_get m1 k = Values_get m2 k"
  shows "Values_Encode m1 = Values_Encode m2"
proof -
  have "sort (map fst m1) = sort (map fst m2)"
    using assms(1-3) by (intro sorted_distinct_set_unique) simp_all
  then show ?thesis
    by (simp add: Values_Encode_fold assms(4))
qed

lemma Values_Encode_pairs:
  assumes "\<And>k. values_of k (query_pairs q1) = values_of k (query_pairs q2)"
  shows "Values_Encode (fst (ParseQuery q1)) = Values_Encode (fst (ParseQuery q2))"
proof (rule Values_Encode_cong)
  show "distinct (map fst (fst (ParseQuery q1)))" "distinct (map fst (fst (ParseQuery q2)))"
    by (simp_all add: ParseQuery_def parseQuery_pairs distinct_fold)
  have "k \<in> set (map fst (query_pairs q1)) \<longleftrightarrow> k \<in> set (map fst (query_pairs q2))" for k
    using assms [of k] values_of_Nil_iff [of k "query_pairs q1"]
      values_of_Nil_iff [of k "query_pairs q2"] by simp
  then show "set (map fst (fst (ParseQuery q1))) = set (map fst (fst (ParseQuery q2)))"
    unfolding ParseQuery_def parseQuery_pairs keys_fold by auto
  show "Values_get (fst (ParseQuery q1)) k = Values_get (fst (ParseQuery q2)) k" for k
    by (simp add: ParseQuery_def parseQuery_pairs Values_get_fold assms)
qed

lemma values_of_perm_distinct:
  assumes "mset ps1 = mset ps2" and "distinct (map fst ps1)"
  shows "values_of k ps1 = values_of k ps2"
proof -
  have d2: "distinct (map fst ps2)"
    using assms by (metis distinct_map mset_eq_setD mset_eq_imp_distinct_iff mset_map)
  have len: "\<And>ps :: (string \<times> string) list. distinct (map fst ps) \<Longrightarrow>
      values_of k ps = (if k \<in> fst ` set ps then [the (map_of ps k)] else [])"
  proof -
    fix ps :: "(string \<times> string) list"
    show "distinct (map fst ps) \<Longrightarrow>
      values_of k ps = (if k \<in> fst ` set ps then [the (map_of ps k)] else [])"
      by (induction ps) (force simp: values_of_def filter_empty_conv)+
  qed
  have "map_of ps1 = map_of ps2"
    using assms d2 by (intro map_of_inject_set [THEN iffD2]) (auto dest: mset_eq_setD)
  moreover have "fst ` set ps1 = fst ` set ps2"
    using assms(1) by (auto dest: mset_eq_setD)
  ultimately show ?thesis
    by (simp add: len [OF assms(2)] len [OF d2])
qed

lemma Values_Encode_reordering:
  assumes "\<forall>k. values_of k (query_pairs (RawQuery u1)) = values_of k (query_pairs (RawQuery u2))"
  shows "Values_Encode (URL_Query u1) = Values_Encode (URL_Query u2)"
  unfolding URL_Query_def using assms by (intro Values_Encode_pairs) simp

lemma url_Parse_query_RawQuery:
  assumes "url_Parse_query q = Inr u"
  shows "RawQuery u = fst (Cut q CHR ''#'')"
proof -
  have t: "takeWhile (\<lambda>c. c \<noteq> CHR ''#'') q = q" if "CHR ''#'' \<notin> set q"
    using that by (auto simp: takeWhile_eq_all_conv)
  show ?thesis
    using assms
    by (auto simp: url_Parse_query_def Cut_def Let_def t split: if_splits sum.splits)
qed

lemma Values_Encode_query_part:
  assumes "url_Parse_query q1 = Inr u1" and "url_Parse_query q2 = Inr u2"
    and "\<forall>k. values_of k (query_pairs (fst (Cut q1 CHR ''#'')))
           = values_of k (query_pairs (fst (Cut q2 CHR ''#'')))"
  shows "Values_Encode (URL_Query u1) = Values_Encode (URL_Query u2)"
  using assms(3)
  unfolding url_Parse_query_RawQuery [OF assms(1), symmetric]
    url_Parse_query_RawQuery [OF assms(2), symmetric]
  by (rule Values_Encode_reordering)

text \<open>
  C4 (as stated). Two pairs of raw queries with the same key/value pairs in different order
  and different canonical forms, all four accepted by \<^verbatim>\<open>url.Parse\<close>. In
  \<^verbatim>\<open>a=1&a=2\<close> and \<^verbatim>\<open>a=2&a=1\<close> a key is repeated: \<^verbatim>\<open>Encode\<close> sorts the keys and leaves
  the values of a key in the order of the raw query. In \<^verbatim>\<open>a=1&b=2#x\<close> and
  \<^verbatim>\<open>b=2#x&a=1\<close> no key is repeated, and \<^verbatim>\<open>url.Parse\<close> cuts the raw query at the first
  \<^verbatim>\<open>#\<close>: the pairs behind it are not in the canonical form, which is \<^verbatim>\<open>a=1&b=2\<close> for
  the first and \<^verbatim>\<open>b=2\<close> for the second.
\<close>

theorem canonical_query_order_dependent:
  "mset (query_pairs ''a=1&a=2'') = mset (query_pairs ''a=2&a=1'') \<and>
   url_Parse_query ''a=1&a=2''
     = Inr \<lparr>RawQuery = ''a=1&a=2'', ForceQuery = False, Fragment = []\<rparr> \<and>
   url_Parse_query ''a=2&a=1''
     = Inr \<lparr>RawQuery = ''a=2&a=1'', ForceQuery = False, Fragment = []\<rparr> \<and>
   Values_Encode (URL_Query \<lparr>RawQuery = ''a=1&a=2'', ForceQuery = False, Fragment = []\<rparr>)
     = ''a=1&a=2'' \<and>
   Values_Encode (URL_Query \<lparr>RawQuery = ''a=2&a=1'', ForceQuery = False, Fragment = []\<rparr>)
     = ''a=2&a=1'' \<and>
   mset (query_pairs ''a=1&b=2#x'') = mset (query_pairs ''b=2#x&a=1'') \<and>
   distinct (map fst (query_pairs ''a=1&b=2#x'')) \<and>
   url_Parse_query ''a=1&b=2#x''
     = Inr \<lparr>RawQuery = ''a=1&b=2'', ForceQuery = False, Fragment = ''x''\<rparr> \<and>
   url_Parse_query ''b=2#x&a=1''
     = Inr \<lparr>RawQuery = ''b=2'', ForceQuery = False, Fragment = ''x&a=1''\<rparr> \<and>
   Values_Encode (URL_Query \<lparr>RawQuery = ''a=1&b=2'', ForceQuery = False, Fragment = ''x''\<rparr>)
     = ''a=1&b=2'' \<and>
   Values_Encode (URL_Query \<lparr>RawQuery = ''b=2'', ForceQuery = False, Fragment = ''x&a=1''\<rparr>)
     = ''b=2''"
proof -
  have "query_pairs ''a=1&a=2'' = [(''a'', ''1''), (''a'', ''2'')]"
    and "query_pairs ''a=2&a=1'' = [(''a'', ''2''), (''a'', ''1'')]"
    by (simp_all add: query_eval)
  then have m: "mset (query_pairs ''a=1&a=2'') = mset (query_pairs ''a=2&a=1'')"
    by simp
  have "query_pairs ''a=1&b=2#x'' = [(''a'', ''1''), (''b'', ''2#x'')]"
    and "query_pairs ''b=2#x&a=1'' = [(''b'', ''2#x''), (''a'', ''1'')]"
    by (simp_all add: query_eval)
  then have f: "mset (query_pairs ''a=1&b=2#x'') = mset (query_pairs ''b=2#x&a=1'')"
      "distinct (map fst (query_pairs ''a=1&b=2#x''))"
    by simp_all
  have p: "url_Parse_query ''a=1&a=2''
        = Inr \<lparr>RawQuery = ''a=1&a=2'', ForceQuery = False, Fragment = []\<rparr>"
      "url_Parse_query ''a=2&a=1''
        = Inr \<lparr>RawQuery = ''a=2&a=1'', ForceQuery = False, Fragment = []\<rparr>"
      "url_Parse_query ''a=1&b=2#x''
        = Inr \<lparr>RawQuery = ''a=1&b=2'', ForceQuery = False, Fragment = ''x''\<rparr>"
      "url_Parse_query ''b=2#x&a=1''
        = Inr \<lparr>RawQuery = ''b=2'', ForceQuery = False, Fragment = ''x&a=1''\<rparr>"
    by (simp_all add: url_eval)
  have e: "Values_Encode (URL_Query \<lparr>RawQuery = ''a=1&a=2'', ForceQuery = False, Fragment = []\<rparr>)
        = ''a=1&a=2''"
      "Values_Encode (URL_Query \<lparr>RawQuery = ''a=2&a=1'', ForceQuery = False, Fragment = []\<rparr>)
        = ''a=2&a=1''"
      "Values_Encode (URL_Query \<lparr>RawQuery = ''a=1&b=2'', ForceQuery = False, Fragment = ''x''\<rparr>)
        = ''a=1&b=2''"
      "Values_Encode (URL_Query \<lparr>RawQuery = ''b=2'', ForceQuery = False, Fragment = ''x&a=1''\<rparr>)
        = ''b=2''"
    by (simp_all add: query_eval)
  show ?thesis
    using m f p e by (intro conjI)
qed

text \<open>
  C4 (amended). The query part of a raw query string is what stands before its first
  \<^verbatim>\<open>#\<close>, the whole string when it has none. For every key, timestamp and body, two raw
  query strings that \<^verbatim>\<open>url.Parse\<close> accepts and whose query parts give every key the same
  values in the same order (so two query parts with the same key/value pairs in different
  order, when the pairs of a repeated key keep their relative order, and in particular when
  no key is repeated) have the same canonical query string inside \<^verbatim>\<open>validSignature\<close>,
  the same computed signature and the same verdict for every supplied signature.
\<close>

theorem canonical_query_reordering:
  assumes "url_Parse_query q1 = Inr u1" and "url_Parse_query q2 = Inr u2"
    and "\<forall>k. values_of k (query_pairs (fst (Cut q1 CHR ''#'')))
           = values_of k (query_pairs (fst (Cut q2 CHR ''#'')))"
  shows "Values_Encode (URL_Query u1) = Values_Encode (URL_Query u2) \<and>
         calculateSignature v ts (Values_Encode (URL_Query u1)) b
           = calculateSignature v ts (Values_Encode (URL_Query u2)) b \<and>
         validSignature v ts q1 b rs = validSignature v ts q2 b rs"
proof -
  have "Values_Encode (URL_Query u1) = Values_Encode (URL_Query u2)"
    using assms by (rule Values_Encode_query_part)
  then show ?thesis
    by (simp add: validSignature_iff assms(1,2))
qed

theorem canonical_query_reordering_witness:
  "Values_Encode (URL_Query \<lparr>RawQuery = ''b=2&a=1'', ForceQuery = False, Fragment = ''x&c=3''\<rparr>)
     = Values_Encode (URL_Query \<lparr>RawQuery = ''a=1&b=2'', ForceQuery = False, Fragment = []\<rparr>) \<and>
   validSignature (NewValidator ''secret'') ''1000000000'' ''b=2&a=1#x&c=3'' [0x7B, 0x7D]
     (EncodeToString (fst (calculateSignature (NewValidator ''secret'') ''1000000000''
        (Values_Encode (URL_Query \<lparr>RawQuery = ''a=1&b=2'', ForceQuery = False, Fragment = []\<rparr>))
        [0x7B, 0x7D]))) \<and>
   validSignature (NewValidator ''secret'') ''1000000000'' ''a=1&b=2'' [0x7B, 0x7D]
     (EncodeToString (fst (calculateSignature (NewValidator ''secret'') ''1000000000''
        (Values_Encode (URL_Query \<lparr>RawQuery = ''a=1&b=2'', ForceQuery = False, Fragment = []\<rparr>))
        [0x7B, 0x7D])))"
proof -
  let ?u1 = "\<lparr>RawQuery = ''b=2&a=1'', ForceQuery = False, Fragment = ''x&c=3''\<rparr>"
  let ?u2 = "\<lparr>RawQuery = ''a=1&b=2'', ForceQuery = False, Fragment = []\<rparr>"
  have p1: "url_Parse_query ''b=2&a=1#x&c=3'' = Inr ?u1"
    and p2: "url_Parse_query ''a=1&b=2'' = Inr ?u2"
    by (simp_all add: url_eval)
  have c: "fst (Cut ''b=2&a=1#x&c=3'' CHR ''#'') = ''b=2&a=1''"
      "fst (Cut ''a=1&b=2'' CHR ''#'') = ''a=1&b=2''"
    by (simp_all add: Cut_def)
  have q: "query_pairs ''b=2&a=1'' = [(''b'', ''2''), (''a'', ''1'')]"
      "query_pairs ''a=1&b=2'' = [(''a'', ''1''), (''b'', ''2'')]"
    by (simp_all add: query_eval)
  have "values_of k (query_pairs ''b=2&a=1'') = values_of k (query_pairs ''a=1&b=2'')" for k
    by (rule values_of_perm_distinct) (simp_all add: q)
  then have same: "\<forall>k. values_of k (query_pairs (fst (Cut ''b=2&a=1#x&c=3'' CHR ''#'')))
      = values_of k (query_pairs (fst (Cut ''a=1&b=2'' CHR ''#'')))"
    unfolding c by simp
  show ?thesis
    using canonical_query_reordering [OF p1 p2 same, of "NewValidator ''secret''"
        "''1000000000''" "[0x7B, 0x7D]"]
      validSignature_roundtrip [OF p2, of "NewValidator ''secret''" "''1000000000''"
        "[0x7B, 0x7D]"]
    by simp
qed

text \<open>
  C8. \<^verbatim>\<open>NewValidator\<close> stores the address of the package variable \<^verbatim>\<open>ValidityWindow\<close>,
  which holds 5 seconds when the program starts. The window that \<^verbatim>\<open>validTimestamp\<close> uses
  for such a validator is the value of the variable at the time of the call: after an
  assignment of \<open>w\<close> to the variable the check is the one for the window \<open>w\<close>, for
  validators constructed before it too, while a validator whose \<^verbatim>\<open>Period\<close> points to a
  variable of its own keeps its window. With the clock 3 seconds after the timestamp the
  request is refused under the 5 seconds and accepted once the variable holds 10 seconds.
\<close>

theorem NewValidator_window:
  "Period (NewValidator key) = Some ValidityWindow_addr \<and>
   SigningKey (NewValidator key) = key \<and>
   init_memory ValidityWindow_addr = 5 * Second \<and>
   sint (init_memory ValidityWindow_addr) = 5000000000 \<and>
   (validTimestamp (mem (ValidityWindow_addr := w)) now (NewValidator key) ts
      = (\<exists>sec. strconv_ParseInt ts = Inr sec \<and>
           0 < now + sint w sdiv 2 - sint sec * 1000000000 \<and>
           now + sint w sdiv 2 - sint sec * 1000000000 < sint w)) \<and>
   (validTimestamp (mem (ValidityWindow_addr := w)) now
        \<lparr>SigningKey = key, Period = Some (Var_addr n)\<rparr> ts
      = validTimestamp mem now \<lparr>SigningKey = key, Period = Some (Var_addr n)\<rparr> ts) \<and>
   \<not> validTimestamp init_memory 1003000000000 (NewValidator key) ''1000'' \<and>
   validTimestamp (init_memory (ValidityWindow_addr := 10 * Second)) 1003000000000
     (NewValidator key) ''1000''"
proof -
  have iff: "validTimestamp m now (NewValidator key) ts
      = (\<exists>sec. strconv_ParseInt ts = Inr sec \<and>
           0 < now + sint (m ValidityWindow_addr) sdiv 2 - sint sec * 1000000000 \<and>
           now + sint (m ValidityWindow_addr) sdiv 2 - sint sec * 1000000000
             < sint (m ValidityWindow_addr))" for m now ts
  proof (cases "strconv_ParseInt ts")
    case (Inl e)
    then show ?thesis
      by (simp add: validTimestamp_def stringToTime_def)
  next
    case (Inr sec)
    then show ?thesis
      using sint_64_range [of "m ValidityWindow_addr"]
      by (auto simp: validTimestamp_def stringToTime_def NewValidator_def Let_def
          word_sless_alt sint_Time_Sub sint_Duration_div2 time_Unix_def Time_Add_def
          split: if_splits)
  qed
  have ts: "strconv_ParseInt ''1000'' = Inr 1000"
    by (simp add: strconv_ParseInt_def strconv_ParseUint_def maxUint64_def)
  have other: "validTimestamp (mem (ValidityWindow_addr := w)) now
        \<lparr>SigningKey = key, Period = Some (Var_addr n)\<rparr> ts
      = validTimestamp mem now \<lparr>SigningKey = key, Period = Some (Var_addr n)\<rparr> ts"
    by (simp add: validTimestamp_def split: sum.splits)
  have w5: "sint (init_memory ValidityWindow_addr) = 5000000000"
    by (simp add: init_memory_def Second_def)
  have w10: "sint (10 * Second) = 10000000000"
    by (simp add: Second_def)
  have fields: "Period (NewValidator key) = Some ValidityWindow_addr \<and>
      SigningKey (NewValidator key) = key \<and>
      init_memory ValidityWindow_addr = 5 * Second \<and>
      sint (init_memory ValidityWindow_addr) = 5000000000"
    by (simp add: NewValidator_def init_memory_def Second_def)
  have after: "validTimestamp (mem (ValidityWindow_addr := w)) now (NewValidator key) ts
      = (\<exists>sec. strconv_ParseInt ts = Inr sec \<and>
           0 < now + sint w sdiv 2 - sint sec * 1000000000 \<and>
           now + sint w sdiv 2 - sint sec * 1000000000 < sint w)"
    by (simp add: iff [of "mem (ValidityWindow_addr := w)"])
  have refused: "\<not> validTimestamp init_memory 1003000000000 (NewValidator key) ''1000''"
    by (simp add: iff [of init_memory] ts w5 signed_divide_int_def)
  have accepted: "validTimestamp (init_memory (ValidityWindow_addr := 10 * Second))
      1003000000000 (NewValidator key) ''1000''"
    by (simp add: iff [of "init_memory (ValidityWindow_addr := 10 * Second)"] ts w10
        signed_divide_int_def)
  show ?thesis
    using fields after other refused accepted by blast
qed

subsection \<open>ValidRequest and Validate\<close>

lemma ValidRequest_cases:
  "ValidRequest mem now v r =
     (if Header_Get (Header r) tsHeader = [] \<or> Header_Get (Header r) sHeader = []
        then (Some (Errorf_Unknown_host (Host r)), r)
      else if \<not> validTimestamp mem now v (Header_Get (Header r) tsHeader)
            \<or> \<not> validSignature v (Header_Get (Header r) tsHeader) (URL_RawQuery r)
                  (unread (Body r)) (Header_Get (Header r) sHeader)
        then (Some (Errorf_Unknown_host (Host r)), r\<lparr>Body := (Body r)\<lparr>unread := []\<rparr>\<rparr>)
      else (None, r\<lparr>Body := NopCloser_NewBuffer (unread (Body r))\<rparr>))"
  by (simp add: ValidRequest_def ReadAll_def Let_def)

lemma validTimestamp_malformed:
  "strconv_ParseInt ts = Inl e \<Longrightarrow> \<not> validTimestamp mem now v ts"
  by (simp add: validTimestamp_def stringToTime_def)

lemma validSignature_malformed:
  "DecodeString rs = Inl e \<Longrightarrow> \<not> validSignature v ts rqp b rs"
  by (simp add: validSignature_iff)

lemma header_keys:
  "CanonicalMIMEHeaderKey tsHeader = ''Messagebird-Request-Timestamp''"
  "CanonicalMIMEHeaderKey sHeader = ''Messagebird-Signature''"
  by code_simp+

lemma Header_Get_missing:
  "h (CanonicalMIMEHeaderKey key) = None \<Longrightarrow> Header_Get h key = []"
  by (simp add: Header_Get_def)

lemma EncodeToString_Nil_iff: "EncodeToString src = [] \<longleftrightarrow> src = []"
  by (cases src rule: EncodeToString.cases) (simp_all add: Let_def)

lemma decode_examples:
  "DecodeString ''!!!'' = Inl CorruptInputError"
  "DecodeString ''QUJD'' = Inr [0x41, 0x42, 0x43]"
  by code_simp+

lemma header_key_examples:
  "CanonicalMIMEHeaderKey ''messagebird-request-timestamp'' = ''Messagebird-Request-Timestamp''"
  "CanonicalMIMEHeaderKey ''MessageBird-Request-Timestamp'' = ''Messagebird-Request-Timestamp''"
  "CanonicalMIMEHeaderKey ''MessageBird-Signature'' = ''Messagebird-Signature''"
  by code_simp+

lemma header_examples:
  "Header_Get (Header (server_request [] q b)) key = []"
  "Header_Get (Header (server_request [(''messagebird-request-timestamp'', t)] q b)) tsHeader = t"
  "Header_Get (Header (server_request [(''messagebird-request-timestamp'', t)] q b)) sHeader = []"
  "Header_Get (Header (server_request
      [(''MessageBird-Request-Timestamp'', t), (''MessageBird-Signature'', s)] q b)) tsHeader = t"
  "Header_Get (Header (server_request
      [(''MessageBird-Request-Timestamp'', t), (''MessageBird-Signature'', s)] q b)) sHeader = s"
proof -
  note k = header_key_examples
  show "Header_Get (Header (server_request [] q b)) key = []"
    by (simp add: server_request_def Header_Get_def)
  show "Header_Get (Header (server_request [(''messagebird-request-timestamp'', t)] q b)) tsHeader = t"
    "Header_Get (Header (server_request [(''messagebird-request-timestamp'', t)] q b)) sHeader = []"
    "Header_Get (Header (server_request
      [(''MessageBird-Request-Timestamp'', t), (''MessageBird-Signature'', s)] q b)) tsHeader = t"
    "Header_Get (Header (server_request
      [(''MessageBird-Request-Timestamp'', t), (''MessageBird-Signature'', s)] q b)) sHeader = s"
    by (simp_all add: server_request_def Header_Get_def header_keys k)
qed

lemma request_fields:
  "Host (server_request lines q b) = ''example.com''"
  "URL_RawQuery (server_request lines q b) = q"
  "unread (Body (server_request lines q b)) = b"
  by (simp_all add: server_request_def)

lemmas timestamp_eval =
  validTimestamp_def stringToTime_def strconv_ParseInt_def strconv_ParseUint_def maxUint64_def
  NewValidator_def init_memory_def Second_def time_Unix_def Time_Add_def Time_Sub_def
  Duration_div_def maxDuration_def minDuration_def signed_divide_int_def word_sless_alt

lemma timestamp_examples:
  "validTimestamp init_memory 1000000000000 (NewValidator key) ''1000''"
  "\<not> validTimestamp init_memory 2000000000000 (NewValidator key) ''1000''"
  "strconv_ParseInt ''yesterday'' = Inl ErrSyntax"
  by (simp_all add: timestamp_eval)

lemma signature_mismatch_length:
  "DecodeString rs = Inr drs \<Longrightarrow> length drs \<noteq> 32 \<Longrightarrow> \<not> validSignature v ts rqp b rs"
  by (auto simp: validSignature_iff calculateSignature_eq length_HMAC_SHA256)

lemma signed_request_valid:
  assumes "validTimestamp mem now v ts" and "ts \<noteq> []" and "url_Parse_query q = Inr u"
  shows "fst (ValidRequest mem now v
           (server_request [(''MessageBird-Request-Timestamp'', ts),
              (''MessageBird-Signature'',
               EncodeToString (fst (calculateSignature v ts (Values_Encode (URL_Query u)) b)))]
             q b)) = None"
proof -
  have "length (fst (calculateSignature v ts (Values_Encode (URL_Query u)) b)) = 32"
    by (simp add: calculateSignature_eq length_HMAC_SHA256)
  then have "EncodeToString (fst (calculateSignature v ts (Values_Encode (URL_Query u)) b)) \<noteq> []"
    by (auto simp: EncodeToString_Nil_iff)
  then show ?thesis
    using assms
    by (simp add: ValidRequest_cases header_examples request_fields validSignature_roundtrip)
qed

text \<open>
  C5. \<^verbatim>\<open>ValidRequest\<close> returns \<^verbatim>\<open>nil\<close> or the one error whose text is made of the host
  of the request, and when it returns the error the handler that \<^verbatim>\<open>Validate\<close> builds
  answers with \<^verbatim>\<open>http.Error(w, "", 401)\<close>, which depends on the response writer only: on
  a writer whose header was not written yet, the status 401 and a body of one line feed.
  Each of the six causes leads to that error: a timestamp header that is missing, a signature
  header that is missing, a timestamp that does not parse, a timestamp outside the window, a
  signature that is not Base64, and a signature that does not match. The results compared
  are the error returned and the response written.
\<close>

theorem ValidRequest_uniform_rejection:
  "(fst (ValidRequest mem now v r) = None
      \<or> fst (ValidRequest mem now v r) = Some (Errorf_Unknown_host (Host r))) \<and>
   (fst (ValidRequest mem now v r) \<noteq> None \<longrightarrow>
      fst (Validate mem now v h (w, r)) = http_Error w [] StatusUnauthorized \<and>
      (status w = None \<longrightarrow>
         status (fst (Validate mem now v h (w, r))) = Some 401 \<and>
         written (fst (Validate mem now v h (w, r))) = written w @ [0x0A])) \<and>
   (Header r (CanonicalMIMEHeaderKey tsHeader) = None \<longrightarrow>
      fst (ValidRequest mem now v r) = Some (Errorf_Unknown_host (Host r))) \<and>
   (Header r (CanonicalMIMEHeaderKey sHeader) = None \<longrightarrow>
      fst (ValidRequest mem now v r) = Some (Errorf_Unknown_host (Host r))) \<and>
   ((\<exists>e. strconv_ParseInt (Header_Get (Header r) tsHeader) = Inl e) \<longrightarrow>
      fst (ValidRequest mem now v r) = Some (Errorf_Unknown_host (Host r))) \<and>
   (\<not> validTimestamp mem now v (Header_Get (Header r) tsHeader) \<longrightarrow>
      fst (ValidRequest mem now v r) = Some (Errorf_Unknown_host (Host r))) \<and>
   ((\<exists>e. DecodeString (Header_Get (Header r) sHeader) = Inl e) \<longrightarrow>
      fst (ValidRequest mem now v r) = Some (Errorf_Unknown_host (Host r))) \<and>
   (\<not> validSignature v (Header_Get (Header r) tsHeader) (URL_RawQuery r) (unread (Body r))
         (Header_Get (Header r) sHeader) \<longrightarrow>
      fst (ValidRequest mem now v r) = Some (Errorf_Unknown_host (Host r)))"
proof -
  have resp: "fst (ValidRequest mem now v r) \<noteq> None \<Longrightarrow>
      fst (Validate mem now v h (w, r)) = http_Error w [] StatusUnauthorized"
    by (auto simp: Validate_def split: prod.splits option.splits)
  have err: "status w = None \<Longrightarrow> status (http_Error w [] StatusUnauthorized) = Some 401 \<and>
      written (http_Error w [] StatusUnauthorized) = written w @ [0x0A]"
    by (simp add: http_Error_def Write_def WriteHeader_def StatusUnauthorized_def
        bytes_of_string_def Let_def)
  show ?thesis
    using resp err
    by (auto simp: ValidRequest_cases Header_Get_missing validTimestamp_malformed
        validSignature_malformed)
qed

theorem ValidRequest_uniform_rejection_witness:
  "fst (ValidRequest init_memory 1000000000000 (NewValidator ''secret'')
          (server_request [] [] [0x7B, 0x7D]))
     = Some (Errorf_Unknown_host ''example.com'') \<and>
   fst (ValidRequest init_memory 1000000000000 (NewValidator ''secret'')
          (server_request [(''messagebird-request-timestamp'', ''1000'')] [] [0x7B, 0x7D]))
     = Some (Errorf_Unknown_host ''example.com'') \<and>
   fst (ValidRequest init_memory 1000000000000 (NewValidator ''secret'')
          (server_request [(''MessageBird-Request-Timestamp'', ''yesterday''),
             (''MessageBird-Signature'', ''QUJD'')] [] [0x7B, 0x7D]))
     = Some (Errorf_Unknown_host ''example.com'') \<and>
   fst (ValidRequest init_memory 2000000000000 (NewValidator ''secret'')
          (server_request [(''MessageBird-Request-Timestamp'', ''1000''),
             (''MessageBird-Signature'', ''QUJD'')] [] [0x7B, 0x7D]))
     = Some (Errorf_Unknown_host ''example.com'') \<and>
   fst (ValidRequest init_memory 1000000000000 (NewValidator ''secret'')
          (server_request [(''MessageBird-Request-Timestamp'', ''1000''),
             (''MessageBird-Signature'', ''!!!'')] [] [0x7B, 0x7D]))
     = Some (Errorf_Unknown_host ''example.com'') \<and>
   fst (ValidRequest init_memory 1000000000000 (NewValidator ''secret'')
          (server_request [(''MessageBird-Request-Timestamp'', ''1000''),
             (''MessageBird-Signature'', ''QUJD'')] [] [0x7B, 0x7D]))
     = Some (Errorf_Unknown_host ''example.com'') \<and>
   fst (Validate init_memory 1000000000000 (NewValidator ''secret'') id
          (new_ResponseWriter, server_request [(''MessageBird-Request-Timestamp'', ''1000''),
             (''MessageBird-Signature'', ''!!!'')] [] [0x7B, 0x7D]))
     = http_Error new_ResponseWriter [] StatusUnauthorized \<and>
   fst (Validate init_memory 1000000000000 (NewValidator ''secret'') id
          (new_ResponseWriter, server_request [] [] [0x7B, 0x7D]))
     = http_Error new_ResponseWriter [] StatusUnauthorized"
proof -
  let ?v = "NewValidator ''secret''"
  let ?b = "[0x7B, 0x7D] :: bytes"
  let ?r1 = "server_request [] [] ?b"
  let ?r2 = "server_request [(''messagebird-request-timestamp'', ''1000'')] [] ?b"
  let ?r3 = "server_request [(''MessageBird-Request-Timestamp'', ''yesterday''),
             (''MessageBird-Signature'', ''QUJD'')] [] ?b"
  let ?r4 = "server_request [(''MessageBird-Request-Timestamp'', ''1000''),
             (''MessageBird-Signature'', ''QUJD'')] [] ?b"
  let ?r5 = "server_request [(''MessageBird-Request-Timestamp'', ''1000''),
             (''MessageBird-Signature'', ''!!!'')] [] ?b"
  have c1: "Header ?r1 (CanonicalMIMEHeaderKey tsHeader) = None"
    by (simp add: server_request_def)
  have c2: "Header ?r2 (CanonicalMIMEHeaderKey sHeader) = None"
    by (simp add: server_request_def header_keys header_key_examples)
  have c3: "\<exists>e. strconv_ParseInt (Header_Get (Header ?r3) tsHeader) = Inl e"
    by (simp add: header_examples timestamp_examples)
  have c4: "\<not> validTimestamp init_memory 2000000000000 ?v (Header_Get (Header ?r4) tsHeader)"
    by (simp add: header_examples timestamp_examples)
  have c5: "\<exists>e. DecodeString (Header_Get (Header ?r5) sHeader) = Inl e"
    by (simp add: header_examples decode_examples)
  have c6: "\<not> validSignature ?v (Header_Get (Header ?r4) tsHeader) (URL_RawQuery ?r4)
      (unread (Body ?r4)) (Header_Get (Header ?r4) sHeader)"
    by (rule signature_mismatch_length [where drs = "[0x41, 0x42, 0x43]"])
       (simp_all add: header_examples decode_examples)
  have h: "Host (server_request lines q b) = ''example.com''" for lines q b
    by (simp add: server_request_def)
  note T = ValidRequest_uniform_rejection
  have 1: "fst (ValidRequest init_memory 1000000000000 ?v ?r1)
      = Some (Errorf_Unknown_host (Host ?r1))"
    using T [of init_memory 1000000000000 ?v ?r1 id new_ResponseWriter] c1 by blast
  have 2: "fst (ValidRequest init_memory 1000000000000 ?v ?r2)
      = Some (Errorf_Unknown_host (Host ?r2))"
    using T [of init_memory 1000000000000 ?v ?r2 id new_ResponseWriter] c2 by blast
  have 3: "fst (ValidRequest init_memory 1000000000000 ?v ?r3)
      = Some (Errorf_Unknown_host (Host ?r3))"
    using T [of init_memory 1000000000000 ?v ?r3 id new_ResponseWriter] c3 by blast
  have 4: "fst (ValidRequest init_memory 2000000000000 ?v ?r4)
      = Some (Errorf_Unknown_host (Host ?r4))"
    using T [of init_memory 2000000000000 ?v ?r4 id new_ResponseWriter] c4 by blast
  have 5: "fst (ValidRequest init_memory 1000000000000 ?v ?r5)
      = Some (Errorf_Unknown_host (Host ?r5))"
    using T [of init_memory 1000000000000 ?v ?r5 id new_ResponseWriter] c5 by blast
  have 6: "fst (ValidRequest init_memory 1000000000000 ?v ?r4)
      = Some (Errorf_Unknown_host (Host ?r4))"
    using T [of init_memory 1000000000000 ?v ?r4 id new_ResponseWriter] c6 by blast
  have 7: "fst (Validate init_memory 1000000000000 ?v id (new_ResponseWriter, ?r5))
      = http_Error new_ResponseWriter [] StatusUnauthorized"
    using T [of init_memory 1000000000000 ?v ?r5 id new_ResponseWriter] 5 by simp
  have 8: "fst (Validate init_memory 1000000000000 ?v id (new_ResponseWriter, ?r1))
      = http_Error new_ResponseWriter [] StatusUnauthorized"
    using T [of init_memory 1000000000000 ?v ?r1 id new_ResponseWriter] 1 by simp
  show ?thesis
    using 1 2 3 4 5 6 7 8 unfolding h by (intro conjI)
qed

text \<open>
  C6. When \<^verbatim>\<open>ValidRequest\<close> returns \<^verbatim>\<open>nil\<close>, reading the body of the request
  afterwards to its end gives the bytes that \<^verbatim>\<open>ValidRequest\<close> read from the body it was
  given, all of them and from the first, with no error; the body is a new buffer over
  those bytes, and header, host and raw query of the request are as they were.
\<close>

theorem ValidRequest_restores_body:
  assumes "fst (ValidRequest mem now v r) = None"
  shows "fst (ReadAll (Body (snd (ValidRequest mem now v r))))
           = (fst (fst (ReadAll (Body r))), None) \<and>
         fst (fst (ReadAll (Body r))) = unread (Body r) \<and>
         Body (snd (ValidRequest mem now v r)) = NopCloser_NewBuffer (unread (Body r)) \<and>
         Header (snd (ValidRequest mem now v r)) = Header r \<and>
         Host (snd (ValidRequest mem now v r)) = Host r \<and>
         URL_RawQuery (snd (ValidRequest mem now v r)) = URL_RawQuery r"
  using assms
  by (auto simp: ValidRequest_cases ReadAll_def NopCloser_NewBuffer_def split: if_splits)

theorem ValidRequest_restores_body_witness:
  "fst (ReadAll (Body (snd (ValidRequest init_memory 1000000000000 (NewValidator ''secret'')
     (server_request [(''MessageBird-Request-Timestamp'', ''1000''),
        (''MessageBird-Signature'',
         EncodeToString (fst (calculateSignature (NewValidator ''secret'') ''1000''
           ''a=1&b=2'' [0x7B, 0x7D])))]
       ''b=2&a=1'' [0x7B, 0x7D]))))) = ([0x7B, 0x7D], None)"
proof -
  let ?u = "\<lparr>RawQuery = ''b=2&a=1'', ForceQuery = False, Fragment = []\<rparr>"
  let ?r = "server_request [(''MessageBird-Request-Timestamp'', ''1000''),
        (''MessageBird-Signature'',
         EncodeToString (fst (calculateSignature (NewValidator ''secret'') ''1000''
           ''a=1&b=2'' [0x7B, 0x7D])))]
       ''b=2&a=1'' [0x7B, 0x7D]"
  have p: "url_Parse_query ''b=2&a=1'' = Inr ?u"
    by (simp add: url_eval)
  have e: "Values_Encode (URL_Query ?u) = ''a=1&b=2''"
    by (simp add: query_eval)
  have "fst (ValidRequest init_memory 1000000000000 (NewValidator ''secret'')
     (server_request [(''MessageBird-Request-Timestamp'', ''1000''),
        (''MessageBird-Signature'',
         EncodeToString (fst (calculateSignature (NewValidator ''secret'') ''1000''
           (Values_Encode (URL_Query ?u)) [0x7B, 0x7D])))]
       ''b=2&a=1'' [0x7B, 0x7D])) = None"
    by (rule signed_request_valid [OF timestamp_examples(1) _ p]) simp
  then have ok: "fst (ValidRequest init_memory 1000000000000 (NewValidator ''secret'') ?r) = None"
    by (simp only: e)
  have b: "fst (fst (ReadAll (Body ?r))) = [0x7B, 0x7D]"
    by (simp add: ReadAll_def request_fields)
  show ?thesis
    using ValidRequest_restores_body [OF ok] unfolding b by (rule conjunct1)
qed

text \<open>
  C10 (as stated). A header can be present with an empty value, and \<^verbatim>\<open>Header.Get\<close> then
  returns the empty string as it does for a missing header. The request below has both
  headers, the timestamp \<^verbatim>\<open>1000\<close> and a signature header with an empty value, and a body
  of two bytes. With the clock at 2000 seconds the freshness check fails for the timestamp,
  and the signature check fails for the empty signature; \<^verbatim>\<open>ValidRequest\<close> all the same
  returns its error with the request as it was, and the two bytes of the body are still to
  be read.
\<close>

theorem ValidRequest_empty_header_body_unread:
  "Header (server_request [(''MessageBird-Request-Timestamp'', ''1000''),
       (''MessageBird-Signature'', [])] [] [0x7B, 0x7D]) (CanonicalMIMEHeaderKey tsHeader)
     = Some [''1000''] \<and>
   Header (server_request [(''MessageBird-Request-Timestamp'', ''1000''),
       (''MessageBird-Signature'', [])] [] [0x7B, 0x7D]) (CanonicalMIMEHeaderKey sHeader)
     = Some [[]] \<and>
   \<not> validTimestamp init_memory 2000000000000 (NewValidator ''secret'') ''1000'' \<and>
   \<not> validSignature (NewValidator ''secret'') ''1000'' [] [0x7B, 0x7D] [] \<and>
   ValidRequest init_memory 2000000000000 (NewValidator ''secret'')
       (server_request [(''MessageBird-Request-Timestamp'', ''1000''),
          (''MessageBird-Signature'', [])] [] [0x7B, 0x7D])
     = (Some (Errorf_Unknown_host ''example.com''),
        server_request [(''MessageBird-Request-Timestamp'', ''1000''),
          (''MessageBird-Signature'', [])] [] [0x7B, 0x7D]) \<and>
   fst (ReadAll (Body (snd (ValidRequest init_memory 2000000000000 (NewValidator ''secret'')
       (server_request [(''MessageBird-Request-Timestamp'', ''1000''),
          (''MessageBird-Signature'', [])] [] [0x7B, 0x7D])))))
     = ([0x7B, 0x7D], None)"
proof -
  let ?r = "server_request [(''MessageBird-Request-Timestamp'', ''1000''),
          (''MessageBird-Signature'', [])] [] [0x7B, 0x7D]"
  have h: "Header ?r (CanonicalMIMEHeaderKey tsHeader) = Some [''1000'']"
      "Header ?r (CanonicalMIMEHeaderKey sHeader) = Some [[]]"
    by (simp_all add: server_request_def header_keys header_key_examples)
  have t: "\<not> validTimestamp init_memory 2000000000000 (NewValidator ''secret'') ''1000''"
    by (rule timestamp_examples)
  have "DecodeString [] = Inr []"
    by (simp add: DecodeString_def)
  then have s: "\<not> validSignature (NewValidator ''secret'') ''1000'' [] [0x7B, 0x7D] []"
    by (rule signature_mismatch_length) simp
  have v: "ValidRequest init_memory 2000000000000 (NewValidator ''secret'') ?r
      = (Some (Errorf_Unknown_host ''example.com''), ?r)"
    by (simp add: ValidRequest_cases header_examples request_fields)
  have b: "fst (ReadAll (Body (snd (ValidRequest init_memory 2000000000000
      (NewValidator ''secret'') ?r)))) = ([0x7B, 0x7D], None)"
    unfolding v by (simp add: ReadAll_def server_request_def)
  show ?thesis
    using h t s v b by (intro conjI)
qed

text \<open>
  C10 (amended). When \<^verbatim>\<open>Header.Get\<close> returns a value that is not empty for both headers
  and the freshness check or the signature check fails, \<^verbatim>\<open>ValidRequest\<close> returns its error
  and leaves the request with its body read to the end and not restored: nothing is left to
  read. When \<^verbatim>\<open>Header.Get\<close> returns the empty string for one of the headers, as it does
  for a missing header and for one whose first value is empty, \<^verbatim>\<open>ValidRequest\<close> returns
  its error and the request is as it was, body included. The body is replaced by a buffer
  over the bytes read on success only.
\<close>

theorem ValidRequest_body_on_failure:
  "(Header_Get (Header r) tsHeader \<noteq> [] \<and> Header_Get (Header r) sHeader \<noteq> [] \<and>
      (\<not> validTimestamp mem now v (Header_Get (Header r) tsHeader) \<or>
       \<not> validSignature v (Header_Get (Header r) tsHeader) (URL_RawQuery r) (unread (Body r))
            (Header_Get (Header r) sHeader)) \<longrightarrow>
      ValidRequest mem now v r
        = (Some (Errorf_Unknown_host (Host r)), r\<lparr>Body := (Body r)\<lparr>unread := []\<rparr>\<rparr>) \<and>
      unread (Body (snd (ValidRequest mem now v r))) = [] \<and>
      fst (ReadAll (Body (snd (ValidRequest mem now v r)))) = ([], failure (Body r))) \<and>
   (Header_Get (Header r) tsHeader = [] \<or> Header_Get (Header r) sHeader = [] \<longrightarrow>
      ValidRequest mem now v r = (Some (Errorf_Unknown_host (Host r)), r)) \<and>
   (Header r (CanonicalMIMEHeaderKey tsHeader) = None
      \<or> Header r (CanonicalMIMEHeaderKey sHeader) = None \<longrightarrow>
      ValidRequest mem now v r = (Some (Errorf_Unknown_host (Host r)), r)) \<and>
   (fst (ValidRequest mem now v r) = None \<longrightarrow>
      Body (snd (ValidRequest mem now v r)) = NopCloser_NewBuffer (unread (Body r)))"
  by (auto simp: ValidRequest_cases Header_Get_missing ReadAll_def)

theorem ValidRequest_body_on_failure_witness:
  "unread (Body (snd (ValidRequest init_memory 2000000000000 (NewValidator ''secret'')
      (server_request [(''MessageBird-Request-Timestamp'', ''1000''),
         (''MessageBird-Signature'', ''QUJD'')] [] [0x7B, 0x7D])))) = [] \<and>
   unread (Body (snd (ValidRequest init_memory 1000000000000 (NewValidator ''secret'')
      (server_request [(''MessageBird-Request-Timestamp'', ''1000''),
         (''MessageBird-Signature'', ''QUJD'')] [] [0x7B, 0x7D])))) = [] \<and>
   ValidRequest init_memory 1000000000000 (NewValidator ''secret'')
      (server_request [(''messagebird-request-timestamp'', ''1000'')] [] [0x7B, 0x7D])
     = (Some (Errorf_Unknown_host ''example.com''),
        server_request [(''messagebird-request-timestamp'', ''1000'')] [] [0x7B, 0x7D]) \<and>
   unread (Body (server_request [(''messagebird-request-timestamp'', ''1000'')] []
      [0x7B, 0x7D])) = [0x7B, 0x7D]"
proof -
  let ?v = "NewValidator ''secret''"
  let ?b = "[0x7B, 0x7D] :: bytes"
  let ?r2 = "server_request [(''messagebird-request-timestamp'', ''1000'')] [] ?b"
  let ?r4 = "server_request [(''MessageBird-Request-Timestamp'', ''1000''),
             (''MessageBird-Signature'', ''QUJD'')] [] ?b"
  have present: "Header_Get (Header ?r4) tsHeader \<noteq> []" "Header_Get (Header ?r4) sHeader \<noteq> []"
    by (simp_all add: header_examples)
  have c4: "\<not> validTimestamp init_memory 2000000000000 ?v (Header_Get (Header ?r4) tsHeader)"
    by (simp add: header_examples timestamp_examples)
  have c6: "\<not> validSignature ?v (Header_Get (Header ?r4) tsHeader) (URL_RawQuery ?r4)
      (unread (Body ?r4)) (Header_Get (Header ?r4) sHeader)"
    by (rule signature_mismatch_length [where drs = "[0x41, 0x42, 0x43]"])
       (simp_all add: header_examples decode_examples)
  have missing: "Header_Get (Header ?r2) sHeader = []"
    by (simp add: header_examples)
  note T = ValidRequest_body_on_failure
  have 1: "unread (Body (snd (ValidRequest init_memory 2000000000000 ?v ?r4))) = []"
    using T [of ?r4 init_memory 2000000000000 ?v] present c4 by blast
  have 2: "unread (Body (snd (ValidRequest init_memory 1000000000000 ?v ?r4))) = []"
    using T [of ?r4 init_memory 1000000000000 ?v] present c6 by blast
  have 3: "ValidRequest init_memory 1000000000000 ?v ?r2
      = (Some (Errorf_Unknown_host (Host ?r2)), ?r2)"
    using T [of ?r2 init_memory 1000000000000 ?v] missing by blast
  have 4: "unread (Body ?r2) = ?b"
    by (simp add: request_fields)
  show ?thesis
    using 1 2 3 4 unfolding request_fields by (intro conjI)
qed

subsection \<open>The signature of the fixture\<close>

text \<open>
  The digests of the fixture are computed block by block. The rules below leave every
  32-bit result of the compression function as a numeral below \<open>2^32\<close>, and every byte of a
  digest as a numeral below 256.
\<close>

lemma replicate_num: "replicate (numeral n) x = x # replicate (pred_numeral n) x"
  by (simp add: numeral_eq_Suc)

lemma take_bit_uint32: "take_bit 32 (x :: uint32) = x"
  by (simp add: take_bit_word_eq_self)

lemma RotateRight32_eval:
  "RotateRight32 x n = take_bit 32 (drop_bit n x OR push_bit (32 - n) x)"
  by (simp add: RotateRight32_def take_bit_uint32)

lemma round256_eval:
  "round256 (k, w) [a, b, c, d, e, f, g, h] =
     (let t1 = take_bit 32 (h + (RotateRight32 e 6 XOR RotateRight32 e 11 XOR RotateRight32 e 25)
                 + take_bit 32 ((e AND f) XOR (NOT e AND g)) + k + w);
          t2 = take_bit 32 ((RotateRight32 a 2 XOR RotateRight32 a 13 XOR RotateRight32 a 22)
                 + ((a AND b) XOR (a AND c) XOR (b AND c)))
      in [take_bit 32 (t1 + t2), a, b, c, take_bit 32 (d + t1), e, f, g])"
  by (simp add: take_bit_uint32)

lemma schedule_word_eval:
  "schedule_word rw =
     (let v1 = rw ! 1;
          t1 = RotateRight32 v1 17 XOR RotateRight32 v1 19 XOR drop_bit 10 v1;
          v2 = rw ! 14;
          t2 = RotateRight32 v2 7 XOR RotateRight32 v2 18 XOR drop_bit 3 v2
      in take_bit 32 (t1 + rw ! 6 + t2 + rw ! 15))"
  by (simp add: schedule_word_def take_bit_uint32)

lemma schedule_numeral:
  "schedule (numeral n) rw = schedule (pred_numeral n) (schedule_word rw # rw)"
  by (simp only: numeral_eq_Suc [of n] schedule.simps)

lemmas sha256_block_eval =
  sha256_block_def sha256_K_def RotateRight32_eval round256_eval schedule_word_eval
  schedule_numeral

lemma sha256_block_empty_1:
  "sha256_block sha256_init
      [0x80, 0x00, 0x00, 0x00, 0x00, 0x00, 0x00, 0x00, 0x00, 0x00, 0x00, 0x00, 0x00, 0x00, 0x00, 0x00,
       0x00, 0x00, 0x00, 0x00, 0x00, 0x00, 0x00, 0x00, 0x00, 0x00, 0x00, 0x00, 0x00, 0x00, 0x00, 0x00,
       0x00, 0x00, 0x00, 0x00, 0x00, 0x00, 0x00, 0x00, 0x00, 0x00, 0x00, 0x00, 0x00, 0x00, 0x00, 0x00,
       0x00, 0x00, 0x00, 0x00, 0x00, 0x00, 0x00, 0x00, 0x00, 0x00, 0x00, 0x00, 0x00, 0x00, 0x00, 0x00]
     = [0xE3B0C442, 0x98FC1C14, 0x9AFBF4C8, 0x996FB924, 0x27AE41E4, 0x649B934C, 0xA495991B, 0x7852B855]"
  by (simp add: sha256_block_eval sha256_init_def del: round256.simps)

lemma sha256_block_inner_1:
  "sha256_block sha256_init
      [0x45, 0x53, 0x55, 0x44, 0x53, 0x42, 0x36, 0x36, 0x36, 0x36, 0x36, 0x36, 0x36, 0x36, 0x36, 0x36,
       0x36, 0x36, 0x36, 0x36, 0x36, 0x36, 0x36, 0x36, 0x36, 0x36, 0x36, 0x36, 0x36, 0x36, 0x36, 0x36,
       0x36, 0x36, 0x36, 0x36, 0x36, 0x36, 0x36, 0x36, 0x36, 0x36, 0x36, 0x36, 0x36, 0x36, 0x36, 0x36,
       0x36, 0x36, 0x36, 0x36, 0x36, 0x36, 0x36, 0x36, 0x36, 0x36, 0x36, 0x36, 0x36, 0x36, 0x36, 0x36]
     = [0x72804F31, 0xB0420168, 0x04D3DEA2, 0xF4E991A2, 0x1B1C8906, 0xBE161594, 0xB202FB74, 0xAFC8CEB3]"
  by (simp add: sha256_block_eval sha256_init_def del: round256.simps)

lemma sha256_block_inner_2:
  "sha256_block [0x72804F31, 0xB0420168, 0x04D3DEA2, 0xF4E991A2, 0x1B1C8906, 0xBE161594, 0xB202FB74, 0xAFC8CEB3]
      [0x31, 0x30, 0x30, 0x30, 0x30, 0x30, 0x30, 0x30, 0x30, 0x30, 0x0A, 0x0A, 0xE3, 0xB0, 0xC4, 0x42,
       0x98, 0xFC, 0x1C, 0x14, 0x9A, 0xFB, 0xF4, 0xC8, 0x99, 0x6F, 0xB9, 0x24, 0x27, 0xAE, 0x41, 0xE4,
       0x64, 0x9B, 0x93, 0x4C, 0xA4, 0x95, 0x99, 0x1B, 0x78, 0x52, 0xB8, 0x55, 0x80, 0x00, 0x00, 0x00,
       0x00, 0x00, 0x00, 0x00, 0x00, 0x00, 0x00, 0x00, 0x00, 0x00, 0x00, 0x00, 0x00, 0x00, 0x03, 0x60]
     = [0x4AF19FBD, 0x59B0351E, 0xBB7F11A0, 0xB04BCCDA, 0x8EED1CD5, 0x7805E9FC, 0x27F9F396, 0xEA6F247D]"
  by (simp add: sha256_block_eval del: round256.simps)

lemma sha256_block_outer_1:
  "sha256_block sha256_init
      [0x2F, 0x39, 0x3F, 0x2E, 0x39, 0x28, 0x5C, 0x5C, 0x5C, 0x5C, 0x5C, 0x5C, 0x5C, 0x5C, 0x5C, 0x5C,
       0x5C, 0x5C, 0x5C, 0x5C, 0x5C, 0x5C, 0x5C, 0x5C, 0x5C, 0x5C, 0x5C, 0x5C, 0x5C, 0x5C, 0x5C, 0x5C,
       0x5C, 0x5C, 0x5C, 0x5C, 0x5C, 0x5C, 0x5C, 0x5C, 0x5C, 0x5C, 0x5C, 0x5C, 0x5C, 0x5C, 0x5C, 0x5C,
       0x5C, 0x5C, 0x5C, 0x5C, 0x5C, 0x5C, 0x5C, 0x5C, 0x5C, 0x5C, 0x5C, 0x5C, 0x5C, 0x5C, 0x5C, 0x5C]
     = [0x5A84072A, 0xAB37D222, 0x75B139AD, 0xF7A92564, 0xC7F674BE, 0x98E77D99, 0x1F6F689D, 0x29E05245]"
  by (simp add: sha256_block_eval sha256_init_def del: round256.simps)

lemma sha256_block_outer_2:
  "sha256_block [0x5A84072A, 0xAB37D222, 0x75B139AD, 0xF7A92564, 0xC7F674BE, 0x98E77D99, 0x1F6F689D, 0x29E05245]
      [0x4A, 0xF1, 0x9F, 0xBD, 0x59, 0xB0, 0x35, 0x1E, 0xBB, 0x7F, 0x11, 0xA0, 0xB0, 0x4B, 0xCC, 0xDA,
       0x8E, 0xED, 0x1C, 0xD5, 0x78, 0x05, 0xE9, 0xFC, 0x27, 0xF9, 0xF3, 0x96, 0xEA, 0x6F, 0x24, 0x7D,
       0x80, 0x00, 0x00, 0x00, 0x00, 0x00, 0x00, 0x00, 0x00, 0x00, 0x00, 0x00, 0x00, 0x00, 0x00, 0x00,
       0x00, 0x00, 0x00, 0x00, 0x00, 0x00, 0x00, 0x00, 0x00, 0x00, 0x00, 0x00, 0x00, 0x00, 0x03, 0x00]
     = [0xCBB9529B, 0x0785A8B0, 0xB9E79F03, 0xBED0A403, 0x099560E7, 0x659A6060, 0x12C98C30, 0x2C49E7C7]"
  by (simp add: sha256_block_eval del: round256.simps)

lemma sha256_block_innerx_2:
  "sha256_block [0x72804F31, 0xB0420168, 0x04D3DEA2, 0xF4E991A2, 0x1B1C8906, 0xBE161594, 0xB202FB74, 0xAFC8CEB3]
      [0x31, 0x30, 0x30, 0x30, 0x30, 0x30, 0x30, 0x30, 0x30, 0x30, 0x0A, 0x0A, 0x65, 0x33, 0x62, 0x30,
       0x63, 0x34, 0x34, 0x32, 0x39, 0x38, 0x66, 0x63, 0x31, 0x63, 0x31, 0x34, 0x39, 0x61, 0x66, 0x62,
       0x66, 0x34, 0x63, 0x38, 0x39, 0x39, 0x36, 0x66, 0x62, 0x39, 0x32, 0x34, 0x32, 0x37, 0x61, 0x65,
       0x34, 0x31, 0x65, 0x34, 0x36, 0x34, 0x39, 0x62, 0x39, 0x33, 0x34, 0x63, 0x61, 0x34, 0x39, 0x35]
     = [0x3A2DC23D, 0x45B3299C, 0xD832D74F, 0xFCFF1A65, 0x644F24D0, 0x0E79F3D7, 0xC32AD7AF, 0x311AAF79]"
  by (simp add: sha256_block_eval del: round256.simps)

lemma sha256_block_innerx_3:
  "sha256_block [0x3A2DC23D, 0x45B3299C, 0xD832D74F, 0xFCFF1A65, 0x644F24D0, 0x0E79F3D7, 0xC32AD7AF, 0x311AAF79]
      [0x39, 0x39, 0x31, 0x62, 0x37, 0x38, 0x35, 0x32, 0x62, 0x38, 0x35, 0x35, 0x80, 0x00, 0x00, 0x00,
       0x00, 0x00, 0x00, 0x00, 0x00, 0x00, 0x00, 0x00, 0x00, 0x00, 0x00, 0x00, 0x00, 0x00, 0x00, 0x00,
       0x00, 0x00, 0x00, 0x00, 0x00, 0x00, 0x00, 0x00, 0x00, 0x00, 0x00, 0x00, 0x00, 0x00, 0x00, 0x00,
       0x00, 0x00, 0x00, 0x00, 0x00, 0x00, 0x00, 0x00, 0x00, 0x00, 0x00, 0x00, 0x00, 0x00, 0x04, 0x60]
     = [0x4332E67E, 0xA591F5F1, 0x32FB836D, 0xB1993E6F, 0x5C1AE278, 0x42E6C23D, 0x6D2C0193, 0x4BDE5250]"
  by (simp add: sha256_block_eval del: round256.simps)

lemma sha256_block_outerx_2:
  "sha256_block [0x5A84072A, 0xAB37D222, 0x75B139AD, 0xF7A92564, 0xC7F674BE, 0x98E77D99, 0x1F6F689D, 0x29E05245]
      [0x43, 0x32, 0xE6, 0x7E, 0xA5, 0x91, 0xF5, 0xF1, 0x32, 0xFB, 0x83, 0x6D, 0xB1, 0x99, 0x3E, 0x6F,
       0x5C, 0x1A, 0xE2, 0x78, 0x42, 0xE6, 0xC2, 0x3D, 0x6D, 0x2C, 0x01, 0x93, 0x4B, 0xDE, 0x52, 0x50,
       0x80, 0x00, 0x00, 0x00, 0x00, 0x00, 0x00, 0x00, 0x00, 0x00, 0x00, 0x00, 0x00, 0x00, 0x00, 0x00,
       0x00, 0x00, 0x00, 0x00, 0x00, 0x00, 0x00, 0x00, 0x00, 0x00, 0x00, 0x00, 0x00, 0x00, 0x03, 0x00]
     = [0xCE0AA09B, 0x088AB4E3, 0x66661F6D, 0x939150DD, 0xC7AB671C, 0x476FE35F, 0xD767A096, 0xA4C00621]"
  by (simp add: sha256_block_eval del: round256.simps)

lemma ucast_byte_eval: "(ucast (x :: 'a :: len word) :: byte) = ucast (take_bit 8 x)"
  by (rule bit_word_eqI) (auto simp: bit_simps)

lemma be_bytes64_eval:
  "be_bytes64 x =
     [ucast (take_bit 8 (drop_bit 56 x)), ucast (take_bit 8 (drop_bit 48 x)),
      ucast (take_bit 8 (drop_bit 40 x)), ucast (take_bit 8 (drop_bit 32 x)),
      ucast (take_bit 8 (drop_bit 24 x)), ucast (take_bit 8 (drop_bit 16 x)),
      ucast (take_bit 8 (drop_bit 8 x)), ucast (take_bit 8 x)]"
  unfolding be_bytes64_def by (simp add: ucast_byte_eval [symmetric])

lemma be_bytes32_eval:
  "be_bytes32 x =
     [ucast (take_bit 8 (drop_bit 24 x)), ucast (take_bit 8 (drop_bit 16 x)),
      ucast (take_bit 8 (drop_bit 8 x)), ucast (take_bit 8 x)]"
  unfolding be_bytes32_def by (simp add: ucast_byte_eval [symmetric])

lemmas sha256_Sum256_eval =
  sha256_Sum256_def sha256_padding_def be_bytes64_eval be_bytes32_eval replicate_num
  sha256_blocks.simps

lemma sha256_Sum256_empty:
  "sha256_Sum256
      []
     = [0xE3, 0xB0, 0xC4, 0x42, 0x98, 0xFC, 0x1C, 0x14, 0x9A, 0xFB, 0xF4, 0xC8, 0x99, 0x6F, 0xB9, 0x24,
       0x27, 0xAE, 0x41, 0xE4, 0x64, 0x9B, 0x93, 0x4C, 0xA4, 0x95, 0x99, 0x1B, 0x78, 0x52, 0xB8, 0x55]"
  by (simp add: sha256_Sum256_eval sha256_block_empty_1)

lemma sha256_Sum256_inner:
  "sha256_Sum256
      [0x45, 0x53, 0x55, 0x44, 0x53, 0x42, 0x36, 0x36, 0x36, 0x36, 0x36, 0x36, 0x36, 0x36, 0x36, 0x36,
       0x36, 0x36, 0x36, 0x36, 0x36, 0x36, 0x36, 0x36, 0x36, 0x36, 0x36, 0x36, 0x36, 0x36, 0x36, 0x36,
       0x36, 0x36, 0x36, 0x36, 0x36, 0x36, 0x36, 0x36, 0x36, 0x36, 0x36, 0x36, 0x36, 0x36, 0x36, 0x36,
       0x36, 0x36, 0x36, 0x36, 0x36, 0x36, 0x36, 0x36, 0x36, 0x36, 0x36, 0x36, 0x36, 0x36, 0x36, 0x36,
       0x31, 0x30, 0x30, 0x30, 0x30, 0x30, 0x30, 0x30, 0x30, 0x30, 0x0A, 0x0A, 0xE3, 0xB0, 0xC4, 0x42,
       0x98, 0xFC, 0x1C, 0x14, 0x9A, 0xFB, 0xF4, 0xC8, 0x99, 0x6F, 0xB9, 0x24, 0x27, 0xAE, 0x41, 0xE4,
       0x64, 0x9B, 0x93, 0x4C, 0xA4, 0x95, 0x99, 0x1B, 0x78, 0x52, 0xB8, 0x55]
     = [0x4A, 0xF1, 0x9F, 0xBD, 0x59, 0xB0, 0x35, 0x1E, 0xBB, 0x7F, 0x11, 0xA0, 0xB0, 0x4B, 0xCC, 0xDA,
       0x8E, 0xED, 0x1C, 0xD5, 0x78, 0x05, 0xE9, 0xFC, 0x27, 0xF9, 0xF3, 0x96, 0xEA, 0x6F, 0x24, 0x7D]"
  by (simp add: sha256_Sum256_eval sha256_block_inner_1 sha256_block_inner_2)

lemma sha256_Sum256_outer:
  "sha256_Sum256
      [0x2F, 0x39, 0x3F, 0x2E, 0x39, 0x28, 0x5C, 0x5C, 0x5C, 0x5C, 0x5C, 0x5C, 0x5C, 0x5C, 0x5C, 0x5C,
       0x5C, 0x5C, 0x5C, 0x5C, 0x5C, 0x5C, 0x5C, 0x5C, 0x5C, 0x5C, 0x5C, 0x5C, 0x5C, 0x5C, 0x5C, 0x5C,
       0x5C, 0x5C, 0x5C, 0x5C, 0x5C, 0x5C, 0x5C, 0x5C, 0x5C, 0x5C, 0x5C, 0x5C, 0x5C, 0x5C, 0x5C, 0x5C,
       0x5C, 0x5C, 0x5C, 0x5C, 0x5C, 0x5C, 0x5C, 0x5C, 0x5C, 0x5C, 0x5C, 0x5C, 0x5C, 0x5C, 0x5C, 0x5C,
       0x4A, 0xF1, 0x9F, 0xBD, 0x59, 0xB0, 0x35, 0x1E, 0xBB, 0x7F, 0x11, 0xA0, 0xB0, 0x4B, 0xCC, 0xDA,
       0x8E, 0xED, 0x1C, 0xD5, 0x78, 0x05, 0xE9, 0xFC, 0x27, 0xF9, 0xF3, 0x96, 0xEA, 0x6F, 0x24, 0x7D]
     = [0xCB, 0xB9, 0x52, 0x9B, 0x07, 0x85, 0xA8, 0xB0, 0xB9, 0xE7, 0x9F, 0x03, 0xBE, 0xD0, 0xA4, 0x03,
       0x09, 0x95, 0x60, 0xE7, 0x65, 0x9A, 0x60, 0x60, 0x12, 0xC9, 0x8C, 0x30, 0x2C, 0x49, 0xE7, 0xC7]"
  by (simp add: sha256_Sum256_eval sha256_block_outer_1 sha256_block_outer_2)

lemma sha256_Sum256_inner_hex:
  "sha256_Sum256
      [0x45, 0x53, 0x55, 0x44, 0x53, 0x42, 0x36, 0x36, 0x36, 0x36, 0x36, 0x36, 0x36, 0x36, 0x36, 0x36,
       0x36, 0x36, 0x36, 0x36, 0x36, 0x36, 0x36, 0x36, 0x36, 0x36, 0x36, 0x36, 0x36, 0x36, 0x36, 0x36,
       0x36, 0x36, 0x36, 0x36, 0x36, 0x36, 0x36, 0x36, 0x36, 0x36, 0x36, 0x36, 0x36, 0x36, 0x36, 0x36,
       0x36, 0x36, 0x36, 0x36, 0x36, 0x36, 0x36, 0x36, 0x36, 0x36, 0x36, 0x36, 0x36, 0x36, 0x36, 0x36,
       0x31, 0x30, 0x30, 0x30, 0x30, 0x30, 0x30, 0x30, 0x30, 0x30, 0x0A, 0x0A, 0x65, 0x33, 0x62, 0x30,
       0x63, 0x34, 0x34, 0x32, 0x39, 0x38, 0x66, 0x63, 0x31, 0x63, 0x31, 0x34, 0x39, 0x61, 0x66, 0x62,
       0x66, 0x34, 0x63, 0x38, 0x39, 0x39, 0x36, 0x66, 0x62, 0x39, 0x32, 0x34, 0x32, 0x37, 0x61, 0x65,
       0x34, 0x31, 0x65, 0x34, 0x36, 0x34, 0x39, 0x62, 0x39, 0x33, 0x34, 0x63, 0x61, 0x34, 0x39, 0x35,
       0x39, 0x39, 0x31, 0x62, 0x37, 0x38, 0x35, 0x32, 0x62, 0x38, 0x35, 0x35]
     = [0x43, 0x32, 0xE6, 0x7E, 0xA5, 0x91, 0xF5, 0xF1, 0x32, 0xFB, 0x83, 0x6D, 0xB1, 0x99, 0x3E, 0x6F,
       0x5C, 0x1A, 0xE2, 0x78, 0x42, 0xE6, 0xC2, 0x3D, 0x6D, 0x2C, 0x01, 0x93, 0x4B, 0xDE, 0x52, 0x50]"
  by (simp add: sha256_Sum256_eval sha256_block_inner_1 sha256_block_innerx_2 sha256_block_innerx_3)

lemma sha256_Sum256_outer_hex:
  "sha256_Sum256
      [0x2F, 0x39, 0x3F, 0x2E, 0x39, 0x28, 0x5C, 0x5C, 0x5C, 0x5C, 0x5C, 0x5C, 0x5C, 0x5C, 0x5C, 0x5C,
       0x5C, 0x5C, 0x5C, 0x5C, 0x5C, 0x5C, 0x5C, 0x5C, 0x5C, 0x5C, 0x5C, 0x5C, 0x5C, 0x5C, 0x5C, 0x5C,
       0x5C, 0x5C, 0x5C, 0x5C, 0x5C, 0x5C, 0x5C, 0x5C, 0x5C, 0x5C, 0x5C, 0x5C, 0x5C, 0x5C, 0x5C, 0x5C,
       0x5C, 0x5C, 0x5C, 0x5C, 0x5C, 0x5C, 0x5C, 0x5C, 0x5C, 0x5C, 0x5C, 0x5C, 0x5C, 0x5C, 0x5C, 0x5C,
       0x43, 0x32, 0xE6, 0x7E, 0xA5, 0x91, 0xF5, 0xF1, 0x32, 0xFB, 0x83, 0x6D, 0xB1, 0x99, 0x3E, 0x6F,
       0x5C, 0x1A, 0xE2, 0x78, 0x42, 0xE6, 0xC2, 0x3D, 0x6D, 0x2C, 0x01, 0x93, 0x4B, 0xDE, 0x52, 0x50]
     = [0xCE, 0x0A, 0xA0, 0x9B, 0x08, 0x8A, 0xB4, 0xE3, 0x66, 0x66, 0x1F, 0x6D, 0x93, 0x91, 0x50, 0xDD,
       0xC7, 0xAB, 0x67, 0x1C, 0x47, 0x6F, 0xE3, 0x5F, 0xD7, 0x67, 0xA0, 0x96, 0xA4, 0xC0, 0x06, 0x21]"
  by (simp add: sha256_Sum256_eval sha256_block_outer_1 sha256_block_outerx_2)

lemma HMAC_SHA256_fixture:
  "HMAC_SHA256 (bytes_of_string ''secret'')
       (bytes_of_string ''1000000000'' @ [0x0A] @ bytes_of_string [] @ [0x0A] @ sha256_Sum256 [])
     = [0xCB, 0xB9, 0x52, 0x9B, 0x07, 0x85, 0xA8, 0xB0, 0xB9, 0xE7, 0x9F, 0x03, 0xBE, 0xD0, 0xA4, 0x03,
        0x09, 0x95, 0x60, 0xE7, 0x65, 0x9A, 0x60, 0x60, 0x12, 0xC9, 0x8C, 0x30, 0x2C, 0x49, 0xE7, 0xC7]"
  by (simp add: HMAC_SHA256_def bytes_of_string_def replicate_num sha256_Sum256_empty
      sha256_Sum256_inner sha256_Sum256_outer)

lemma hex_fixture:
  "hex_EncodeToString (sha256_Sum256 [])
     = ''e3b0c44298fc1c149afbf4c8996fb92427ae41e4649b934ca495991b7852b855''"
  unfolding sha256_Sum256_empty by code_simp

lemma HMAC_SHA256_fixture_hex:
  "HMAC_SHA256 (bytes_of_string ''secret'')
       (bytes_of_string (''1000000000'' @ [CHR 0x0A, CHR 0x0A]
          @ hex_EncodeToString (sha256_Sum256 [])))
     = [0xCE, 0x0A, 0xA0, 0x9B, 0x08, 0x8A, 0xB4, 0xE3, 0x66, 0x66, 0x1F, 0x6D, 0x93, 0x91, 0x50, 0xDD,
        0xC7, 0xAB, 0x67, 0x1C, 0x47, 0x6F, 0xE3, 0x5F, 0xD7, 0x67, 0xA0, 0x96, 0xA4, 0xC0, 0x06, 0x21]"
  unfolding hex_fixture
  by (simp add: HMAC_SHA256_def bytes_of_string_def replicate_num
      sha256_Sum256_inner_hex sha256_Sum256_outer_hex)

lemma EncodeToString_fixture:
  "EncodeToString [0xCB, 0xB9, 0x52, 0x9B, 0x07, 0x85, 0xA8, 0xB0, 0xB9, 0xE7, 0x9F, 0x03, 0xBE, 0xD0, 0xA4, 0x03,
        0x09, 0x95, 0x60, 0xE7, 0x65, 0x9A, 0x60, 0x60, 0x12, 0xC9, 0x8C, 0x30, 0x2C, 0x49, 0xE7, 0xC7] = ''y7lSmweFqLC5558DvtCkAwmVYOdlmmBgEsmMMCxJ58c=''"
  "EncodeToString [0xCE, 0x0A, 0xA0, 0x9B, 0x08, 0x8A, 0xB4, 0xE3, 0x66, 0x66, 0x1F, 0x6D, 0x93, 0x91, 0x50, 0xDD,
        0xC7, 0xAB, 0x67, 0x1C, 0x47, 0x6F, 0xE3, 0x5F, 0xD7, 0x67, 0xA0, 0x96, 0xA4, 0xC0, 0x06, 0x21] = ''zgqgmwiKtONmZh9tk5FQ3cerZxxHb+Nf12eglqTABiE=''"
  by code_simp+

lemma url_Parse_query_Nil:
  "url_Parse_query [] = Inr \<lparr>RawQuery = [], ForceQuery = True, Fragment = []\<rparr>"
  by (simp add: url_eval)

lemma Values_Encode_Nil:
  "Values_Encode (URL_Query \<lparr>RawQuery = [], ForceQuery = True, Fragment = []\<rparr>) = []"
  by (simp add: query_eval)

text \<open>
  C3. \<^verbatim>\<open>calculateSignature\<close> returns, with no error, the keyed hash \<open>HMAC_SHA256\<close> of
  the signing key and of the message made of the timestamp, a line feed, the query string,
  a line feed and the SHA-256 digest of the body, which is the 32 bytes of the digest. For
  the key \<^verbatim>\<open>secret\<close>, the timestamp \<^verbatim>\<open>1000000000\<close>, the empty query and the empty body
  the signature is \<^verbatim>\<open>y7lSmweFqLC5558DvtCkAwmVYOdlmmBgEsmMMCxJ58c=\<close> in Base64, and
  \<^verbatim>\<open>validSignature\<close> accepts it. The keyed hash of the message with the 64 hexadecimal
  digits of the digest in the place of its bytes is
  \<^verbatim>\<open>zgqgmwiKtONmZh9tk5FQ3cerZxxHb+Nf12eglqTABiE=\<close>, and \<^verbatim>\<open>validSignature\<close> refuses it.
\<close>

theorem calculateSignature_layout:
  "calculateSignature v ts qp b
     = (HMAC_SHA256 (bytes_of_string (SigningKey v))
          (bytes_of_string ts @ [0x0A] @ bytes_of_string qp @ [0x0A] @ sha256_Sum256 b), None) \<and>
   length (sha256_Sum256 b) = 32 \<and>
   sha256_Sum256 [] = [0xE3, 0xB0, 0xC4, 0x42, 0x98, 0xFC, 0x1C, 0x14, 0x9A, 0xFB, 0xF4, 0xC8, 0x99, 0x6F, 0xB9, 0x24,
        0x27, 0xAE, 0x41, 0xE4, 0x64, 0x9B, 0x93, 0x4C, 0xA4, 0x95, 0x99, 0x1B, 0x78, 0x52, 0xB8, 0x55] \<and>
   calculateSignature (NewValidator ''secret'') ''1000000000'' [] [] = ([0xCB, 0xB9, 0x52, 0x9B, 0x07, 0x85, 0xA8, 0xB0, 0xB9, 0xE7, 0x9F, 0x03, 0xBE, 0xD0, 0xA4, 0x03,
        0x09, 0x95, 0x60, 0xE7, 0x65, 0x9A, 0x60, 0x60, 0x12, 0xC9, 0x8C, 0x30, 0x2C, 0x49, 0xE7, 0xC7], None) \<and>
   EncodeToString (fst (calculateSignature (NewValidator ''secret'') ''1000000000'' [] []))
     = ''y7lSmweFqLC5558DvtCkAwmVYOdlmmBgEsmMMCxJ58c='' \<and>
   validSignature (NewValidator ''secret'') ''1000000000'' [] []
     ''y7lSmweFqLC5558DvtCkAwmVYOdlmmBgEsmMMCxJ58c='' \<and>
   EncodeToString (HMAC_SHA256 (bytes_of_string ''secret'')
       (bytes_of_string (''1000000000'' @ [CHR 0x0A, CHR 0x0A]
          @ hex_EncodeToString (sha256_Sum256 []))))
     = ''zgqgmwiKtONmZh9tk5FQ3cerZxxHb+Nf12eglqTABiE='' \<and>
   \<not> validSignature (NewValidator ''secret'') ''1000000000'' [] []
     ''zgqgmwiKtONmZh9tk5FQ3cerZxxHb+Nf12eglqTABiE=''"
proof -
  let ?v = "NewValidator ''secret''"
  have layout: "calculateSignature v ts qp b
     = (HMAC_SHA256 (bytes_of_string (SigningKey v))
          (bytes_of_string ts @ [0x0A] @ bytes_of_string qp @ [0x0A] @ sha256_Sum256 b), None)"
    for v ts qp b
    by (simp add: calculateSignature_def Fprintf_s_s_s_def hMACSHA256_eq Let_def)
  have raw: "length (sha256_Sum256 b) = 32"
    by (rule length_sha256_Sum256)
  have fixture: "calculateSignature ?v ''1000000000'' [] [] = ([0xCB, 0xB9, 0x52, 0x9B, 0x07, 0x85, 0xA8, 0xB0, 0xB9, 0xE7, 0x9F, 0x03, 0xBE, 0xD0, 0xA4, 0x03,
        0x09, 0x95, 0x60, 0xE7, 0x65, 0x9A, 0x60, 0x60, 0x12, 0xC9, 0x8C, 0x30, 0x2C, 0x49, 0xE7, 0xC7], None)"
    unfolding layout by (simp only: NewValidator_def Validator.select_convs HMAC_SHA256_fixture)
  have enc: "EncodeToString (fst (calculateSignature ?v ''1000000000'' [] []))
      = ''y7lSmweFqLC5558DvtCkAwmVYOdlmmBgEsmMMCxJ58c=''"
    unfolding fixture fst_conv by (rule EncodeToString_fixture)
  have "validSignature ?v ''1000000000'' [] []
      (EncodeToString (fst (calculateSignature ?v ''1000000000''
         (Values_Encode (URL_Query \<lparr>RawQuery = [], ForceQuery = True, Fragment = []\<rparr>)) [])))"
    using url_Parse_query_Nil by (rule validSignature_roundtrip)
  then have accepted: "validSignature ?v ''1000000000'' [] []
      ''y7lSmweFqLC5558DvtCkAwmVYOdlmmBgEsmMMCxJ58c=''"
    unfolding Values_Encode_Nil enc .
  have hex: "EncodeToString (HMAC_SHA256 (bytes_of_string ''secret'')
       (bytes_of_string (''1000000000'' @ [CHR 0x0A, CHR 0x0A]
          @ hex_EncodeToString (sha256_Sum256 []))))
     = ''zgqgmwiKtONmZh9tk5FQ3cerZxxHb+Nf12eglqTABiE=''"
    unfolding HMAC_SHA256_fixture_hex by (rule EncodeToString_fixture)
  have "DecodeString (EncodeToString [0xCE, 0x0A, 0xA0, 0x9B, 0x08, 0x8A, 0xB4, 0xE3, 0x66, 0x66, 0x1F, 0x6D, 0x93, 0x91, 0x50, 0xDD,
        0xC7, 0xAB, 0x67, 0x1C, 0x47, 0x6F, 0xE3, 0x5F, 0xD7, 0x67, 0xA0, 0x96, 0xA4, 0xC0, 0x06, 0x21]) = Inr [0xCE, 0x0A, 0xA0, 0x9B, 0x08, 0x8A, 0xB4, 0xE3, 0x66, 0x66, 0x1F, 0x6D, 0x93, 0x91, 0x50, 0xDD,
        0xC7, 0xAB, 0x67, 0x1C, 0x47, 0x6F, 0xE3, 0x5F, 0xD7, 0x67, 0xA0, 0x96, 0xA4, 0xC0, 0x06, 0x21]"
    by (rule DecodeString_EncodeToString)
  then have dec: "DecodeString ''zgqgmwiKtONmZh9tk5FQ3cerZxxHb+Nf12eglqTABiE='' = Inr [0xCE, 0x0A, 0xA0, 0x9B, 0x08, 0x8A, 0xB4, 0xE3, 0x66, 0x66, 0x1F, 0x6D, 0x93, 0x91, 0x50, 0xDD,
        0xC7, 0xAB, 0x67, 0x1C, 0x47, 0x6F, 0xE3, 0x5F, 0xD7, 0x67, 0xA0, 0x96, 0xA4, 0xC0, 0x06, 0x21]"
    unfolding EncodeToString_fixture .
  have refused: "\<not> validSignature ?v ''1000000000'' [] []
      ''zgqgmwiKtONmZh9tk5FQ3cerZxxHb+Nf12eglqTABiE=''"
    by (simp add: validSignature_iff url_Parse_query_Nil Values_Encode_Nil fixture dec)
  show ?thesis
    using layout raw sha256_Sum256_empty fixture enc accepted hex refused by (intro conjI)
qed

end
